theory Spec2Isabelle
  imports Main
begin

section \<open>JavaScript values used by the service\<close>

text \<open>
  A string is the list of its code units, for strings whose code units are below 256.
  A \<^verbatim>\<open>Date\<close> is its time value (milliseconds since the epoch); \<^verbatim>\<open>toISOString\<close>
  and \<^verbatim>\<open>new Date(iso)\<close> are inverse on valid dates, so the ISO text of a date is
  identified with the date.
\<close>

type_synonym Date = nat

text \<open>
  An optional, nullable string parameter (\<^verbatim>\<open>reservationId?: string | null\<close>) has three
  shapes, which the code tells apart.
\<close>

datatype nullable_string = Undefined | Null | Str string

text \<open>\<^verbatim>\<open>x ?? undefined\<close>: null and undefined both give undefined.\<close>

fun nullish_to_undefined :: "nullable_string \<Rightarrow> string option" where
  "nullish_to_undefined Undefined = None"
| "nullish_to_undefined Null = None"
| "nullish_to_undefined (Str s) = Some s"

text \<open>
  \<^verbatim>\<open>String.prototype.trim\<close> strips white space and line terminators from both ends;
  below 256 these are TAB, LF, VT, FF, CR, SPACE and NBSP.
\<close>

definition is_ws :: "char \<Rightarrow> bool" where
  "is_ws c = (c = CHR 0x09 \<or> c = CHR 0x0A \<or> c = CHR 0x0B \<or> c = CHR 0x0C
              \<or> c = CHR 0x0D \<or> c = CHR '' '' \<or> c = CHR 0xA0)"

definition trim :: "string \<Rightarrow> string" where
  "trim s = rev (dropWhile is_ws (rev (dropWhile is_ws s)))"

section \<open>The availability record (domain/entities/device-availability.ts)\<close>

text \<open>
  \<^verbatim>\<open>AvailabilityStatus\<close> is a string enum: at run time a status is a string, and
  \<^verbatim>\<open>Object.values(AvailabilityStatus)\<close> is the list of the five member strings.
\<close>

abbreviation Available :: string where "Available \<equiv> ''Available''"
abbreviation Unavailable :: string where "Unavailable \<equiv> ''Unavailable''"
abbreviation Maintenance :: string where "Maintenance \<equiv> ''Maintenance''"
abbreviation Retired :: string where "Retired \<equiv> ''Retired''"
abbreviation Lost :: string where "Lost \<equiv> ''Lost''"

definition AvailabilityStatus_values :: "string list" where
  "AvailabilityStatus_values = [Available, Unavailable, Maintenance, Retired, Lost]"

text \<open>The field \<^verbatim>\<open>id\<close> is written \<open>id'\<close>.\<close>

record DeviceAvailability =
  id' :: string
  deviceId :: string
  status :: string
  reservationId :: "string option"
  lastCheckedAt :: Date
  updatedAt :: Date

text \<open>\<^verbatim>\<open>class DeviceAvailabilityError extends Error\<close>: the field and the message.\<close>

datatype DeviceAvailabilityError = DeviceAvailabilityError (field: string) (message: string)

definition validateDeviceAvailability :: "string \<Rightarrow> string \<Rightarrow> DeviceAvailabilityError + unit" where
  "validateDeviceAvailability dev st =
     (if dev = [] \<or> trim dev = []
      then Inl (DeviceAvailabilityError ''deviceId'' ''Device ID must be a non-empty string.'')
      else if st \<notin> set AvailabilityStatus_values
      then Inl (DeviceAvailabilityError ''status'' ''Status must be a valid AvailabilityStatus.'')
      else Inr ())"

text \<open>
  \<^verbatim>\<open>createDeviceAvailability(params)\<close>; the parameter object is passed field by field,
  and \<open>now\<close> is what \<^verbatim>\<open>new Date()\<close> returns.
\<close>

definition createDeviceAvailability ::
  "Date \<Rightarrow> string \<Rightarrow> string option \<Rightarrow> string option \<Rightarrow> DeviceAvailabilityError + DeviceAvailability" where
  "createDeviceAvailability now p_deviceId p_status p_reservationId =
     (let st = (case p_status of None \<Rightarrow> Available | Some s \<Rightarrow> s) in
      case validateDeviceAvailability p_deviceId st of
        Inl e \<Rightarrow> Inl e
      | Inr _ \<Rightarrow>
          Inr \<lparr> id' = p_deviceId,
                deviceId = trim p_deviceId,
                status = st,
                reservationId = map_option trim p_reservationId,
                lastCheckedAt = now,
                updatedAt = now \<rparr>)"

text \<open>\<^verbatim>\<open>updateDeviceAvailability(existing, {status?, reservationId?})\<close>.\<close>

definition updateDeviceAvailability ::
  "Date \<Rightarrow> DeviceAvailability \<Rightarrow> string option \<Rightarrow> nullable_string \<Rightarrow> DeviceAvailabilityError + DeviceAvailability" where
  "updateDeviceAvailability now existing p_status p_reservationId =
     (let newStatus = (case p_status of None \<Rightarrow> status existing | Some s \<Rightarrow> s) in
      case validateDeviceAvailability (deviceId existing) newStatus of
        Inl e \<Rightarrow> Inl e
      | Inr _ \<Rightarrow>
          Inr (existing \<lparr> status := newStatus,
                reservationId :=
                  (case p_reservationId of
                     Null \<Rightarrow> None
                   | Undefined \<Rightarrow> reservationId existing
                   | Str r \<Rightarrow> Some r),
                lastCheckedAt := now,
                updatedAt := now \<rparr>))"

section \<open>Thrown values\<close>

text \<open>
  A thrown value is an \<^verbatim>\<open>Error\<close> object: its message and, for the document store's
  errors, its numeric \<^verbatim>\<open>code ?? statusCode\<close>.
\<close>

datatype js_error = JsError (err_code: "nat option") (err_message: string)

definition thrown_validation :: "DeviceAvailabilityError \<Rightarrow> js_error" where
  "thrown_validation e = JsError None (message e)"

definition wrapError :: "string \<Rightarrow> js_error \<Rightarrow> js_error" where
  "wrapError msg e = JsError None (msg @ '': '' @ err_message e)"

definition isNotFound :: "js_error \<Rightarrow> bool" where
  "isNotFound e = (err_code e = Some 404)"

section \<open>Outbox messages (domain/entities/outbox-message.ts)\<close>

text \<open>The payload of the one event this service enqueues; null is \<open>None\<close>.\<close>

record AvailabilityChangedEventData =
  evt_deviceId :: string
  previousStatus :: "string option"
  newStatus :: string
  evt_reservationId :: "string option"
  evt_updatedAt :: Date

text \<open>The field \<^verbatim>\<open>id\<close> is written \<open>msg_id\<close>.\<close>

record OutboxMessage =
  msg_id :: string
  topic :: string
  eventType :: string
  subject :: string
  data :: AvailabilityChangedEventData
  dataVersion :: string
  eventTime :: Date
  processed :: bool
  processedAt :: "Date option"
  error :: "string option"
  retryCount :: nat

abbreviation AvailabilityChanged :: string where "AvailabilityChanged \<equiv> ''Availability.Changed''"

section \<open>The world: both containers, the bus, the clock and injected faults\<close>

text \<open>
  The calls made on the \<^verbatim>\<open>deps\<close> object (\<^verbatim>\<open>availabilityRepo\<close> and
  \<^verbatim>\<open>eventPublisher\<close>), in order.
\<close>

datatype repo_call =
    GetByDeviceId string
  | Save DeviceAvailability
  | Delete string
  | Publish string string string AvailabilityChangedEventData

datatype partition_path = Path_id | Path_deviceId

text \<open>
  \<open>docs\<close> is the availability container and \<open>outbox\<close> the outbox container, both in
  insertion order. \<open>partition_path\<close> is the availability container's partition key path,
  a deployment setting the sources do not fix: \<^verbatim>\<open>/id\<close> or \<^verbatim>\<open>/deviceId\<close>, the two paths
  under which \<^verbatim>\<open>item(deviceId, deviceId)\<close> addresses a record. \<open>clock\<close> is what
  \<^verbatim>\<open>new Date()\<close> returns during the call, \<open>uuids\<close> the stream \<^verbatim>\<open>randomUUID()\<close> draws from. Each \<open>_fault\<close>
  makes the named operation of the store client throw; \<open>bus_outcome n\<close> is what the
  \<open>n\<close>-th publish attempt on the event bus does.
\<close>

record world =
  docs :: "DeviceAvailability list"
  partition_path :: partition_path
  outbox :: "OutboxMessage list"
  calls :: "repo_call list"
  clock :: Date
  uuids :: "nat \<Rightarrow> string"
  uuid_draws :: nat
  read_fault :: "js_error option"
  query_fault :: "js_error option"
  upsert_fault :: "js_error option"
  upsert_no_resource :: bool
  delete_fault :: "js_error option"
  outbox_save_fault :: "js_error option"
  outbox_list_fault :: "js_error option"
  mark_processed_fault :: "string \<Rightarrow> js_error option"
  mark_failed_fault :: "string \<Rightarrow> js_error option"
  bus_outcome :: "nat \<Rightarrow> js_error option"
  bus_attempts :: "(string \<times> string \<times> string \<times> AvailabilityChangedEventData \<times> string) list"

subsection \<open>The document store client on the availability container\<close>

definition partition_key :: "world \<Rightarrow> DeviceAvailability \<Rightarrow> string" where
  "partition_key w d = (case partition_path w of Path_id \<Rightarrow> id' d | Path_deviceId \<Rightarrow> deviceId d)"

text \<open>An item is addressed by its id and its partition key value.\<close>

definition is_item :: "world \<Rightarrow> string \<Rightarrow> string \<Rightarrow> DeviceAvailability \<Rightarrow> bool" where
  "is_item w k pk d = (id' d = k \<and> partition_key w d = pk)"

text \<open>\<^verbatim>\<open>container.item(k, pk).read()\<close>: a missing item has no resource.\<close>

definition item_read :: "world \<Rightarrow> string \<Rightarrow> string \<Rightarrow> js_error + DeviceAvailability option" where
  "item_read w k pk =
     (case read_fault w of
        Some e \<Rightarrow> Inl e
      | None \<Rightarrow> Inr (find (is_item w k pk) (docs w)))"

text \<open>\<^verbatim>\<open>SELECT TOP 1 * FROM c WHERE c.deviceId = @deviceId\<close>.\<close>

definition items_query :: "world \<Rightarrow> string \<Rightarrow> js_error + DeviceAvailability list" where
  "items_query w dev =
     (case query_fault w of
        Some e \<Rightarrow> Inl e
      | None \<Rightarrow> Inr (take 1 (filter (\<lambda>d. deviceId d = dev) (docs w))))"

text \<open>\<^verbatim>\<open>container.items.upsert(doc)\<close>: replaces the item of the same id and partition key, or adds one.\<close>

definition items_upsert :: "world \<Rightarrow> DeviceAvailability \<Rightarrow> (js_error + DeviceAvailability option) \<times> world" where
  "items_upsert w doc =
     (case upsert_fault w of
        Some e \<Rightarrow> (Inl e, w)
      | None \<Rightarrow>
          (Inr (if upsert_no_resource w then None else Some doc),
           w \<lparr> docs :=
                 (if find (is_item w (id' doc) (partition_key w doc)) (docs w) = None
                  then docs w @ [doc]
                  else map (\<lambda>d. if is_item w (id' doc) (partition_key w doc) d then doc else d) (docs w)) \<rparr>))"

text \<open>\<^verbatim>\<open>container.item(k, pk).delete()\<close>: deleting a missing item throws with code 404.\<close>

definition item_delete :: "world \<Rightarrow> string \<Rightarrow> string \<Rightarrow> (js_error + unit) \<times> world" where
  "item_delete w k pk =
     (case delete_fault w of
        Some e \<Rightarrow> (Inl e, w)
      | None \<Rightarrow>
          (if find (is_item w k pk) (docs w) = None
           then (Inl (JsError (Some 404) ''Entity with the specified id does not exist in the system.''), w)
           else (Inr (), w \<lparr> docs := filter (\<lambda>d. \<not> is_item w k pk d) (docs w) \<rparr>)))"

subsection \<open>CosmosAvailabilityRepo (infra/adapters/cosmos-availability-repo.ts)\<close>

text \<open>
  \<^verbatim>\<open>mapToDomain\<close>: a document stores its dates as ISO text written by
  \<^verbatim>\<open>mapToDocument\<close>, so the two date checks pass; the three string checks remain.
\<close>

definition mapToDomain :: "DeviceAvailability \<Rightarrow> js_error + DeviceAvailability" where
  "mapToDomain document =
     (if id' document = [] then Inl (JsError None ''Availability document missing required field: id'')
      else if deviceId document = [] then Inl (JsError None ''Availability document missing required field: deviceId'')
      else if status document = [] then Inl (JsError None ''Availability document missing required field: status'')
      else Inr document)"

definition repo_save :: "world \<Rightarrow> DeviceAvailability \<Rightarrow> (js_error + DeviceAvailability) \<times> world" where
  "repo_save w availability =
     (case items_upsert (w \<lparr> calls := calls w @ [Save availability] \<rparr>) availability of
        (Inl e, w') \<Rightarrow> (Inl (wrapError ''Failed to save device availability'' e), w')
      | (Inr None, w') \<Rightarrow>
          (Inl (wrapError ''Failed to save device availability'' (JsError None ''Upsert returned no resource'')), w')
      | (Inr (Some resource), w') \<Rightarrow>
          (case mapToDomain resource of
             Inl e \<Rightarrow> (Inl (wrapError ''Failed to save device availability'' e), w')
           | Inr saved \<Rightarrow> (Inr saved, w')))"

text \<open>The catch block of \<^verbatim>\<open>getByDeviceId\<close>: not-found is absence, anything else falls back to the query.\<close>

definition getByDeviceId_catch :: "world \<Rightarrow> string \<Rightarrow> js_error \<Rightarrow> js_error + DeviceAvailability option" where
  "getByDeviceId_catch w dev e =
     (if isNotFound e then Inr None
      else case items_query w dev of
             Inl inner \<Rightarrow> Inl (wrapError ''Failed to get device availability by device ID'' inner)
           | Inr [] \<Rightarrow> Inr None
           | Inr (r # _) \<Rightarrow>
               (case mapToDomain r of
                  Inl inner \<Rightarrow> Inl (wrapError ''Failed to get device availability by device ID'' inner)
                | Inr a \<Rightarrow> Inr (Some a)))"

definition repo_getByDeviceId :: "world \<Rightarrow> string \<Rightarrow> (js_error + DeviceAvailability option) \<times> world" where
  "repo_getByDeviceId w dev =
     (let w' = w \<lparr> calls := calls w @ [GetByDeviceId dev] \<rparr> in
      (case item_read w' dev dev of
         Inl e \<Rightarrow> getByDeviceId_catch w' dev e
       | Inr None \<Rightarrow> Inr None
       | Inr (Some resource) \<Rightarrow>
           (case mapToDomain resource of
              Inl e \<Rightarrow> getByDeviceId_catch w' dev e
            | Inr a \<Rightarrow> Inr (Some a)),
       w'))"

definition repo_delete :: "world \<Rightarrow> string \<Rightarrow> (js_error + unit) \<times> world" where
  "repo_delete w dev =
     (case item_delete (w \<lparr> calls := calls w @ [Delete dev] \<rparr>) dev dev of
        (Inr u, w') \<Rightarrow> (Inr (), w')
      | (Inl e, w') \<Rightarrow>
          (if isNotFound e then (Inr (), w')
           else (Inl (wrapError ''Failed to delete device availability'' e), w')))"

subsection \<open>The outbox store (domain/repositories/outbox-repo.ts)\<close>

text \<open>
  Modelled from the spec: the adapter \<^verbatim>\<open>CosmosOutboxRepo\<close> implementing the
  \<^verbatim>\<open>OutboxRepo\<close> interface is not among the sources. \<open>save\<close> appends the message.
\<close>

definition outboxRepo_save :: "world \<Rightarrow> OutboxMessage \<Rightarrow> (js_error + unit) \<times> world" where
  "outboxRepo_save w m =
     (case outbox_save_fault w of
        Some e \<Rightarrow> (Inl e, w)
      | None \<Rightarrow> (Inr (), w \<lparr> outbox := outbox w @ [m] \<rparr>))"

text \<open>
  Modelled from the spec: \<^verbatim>\<open>listUnprocessed(limit)\<close> of the missing adapter fetches up to
  \<open>limit\<close> unprocessed messages, in insertion order.
\<close>

definition outboxRepo_listUnprocessed :: "world \<Rightarrow> nat \<Rightarrow> js_error + OutboxMessage list" where
  "outboxRepo_listUnprocessed w batchSize =
     (case outbox_list_fault w of
        Some e \<Rightarrow> Inl e
      | None \<Rightarrow> Inr (take batchSize (filter (\<lambda>m. \<not> processed m) (outbox w))))"

text \<open>
  Modelled from the spec: \<^verbatim>\<open>markAsProcessed(id)\<close> of the missing adapter marks the message
  \<open>processed = true, processedAt = now\<close>.
\<close>

definition outboxRepo_markAsProcessed :: "world \<Rightarrow> string \<Rightarrow> (js_error + unit) \<times> world" where
  "outboxRepo_markAsProcessed w mid =
     (case mark_processed_fault w mid of
        Some e \<Rightarrow> (Inl e, w)
      | None \<Rightarrow>
          (Inr (), w \<lparr> outbox :=
             map (\<lambda>m. if msg_id m = mid then m \<lparr> processed := True, processedAt := Some (clock w) \<rparr> else m)
               (outbox w) \<rparr>))"

text \<open>
  Modelled from the spec: \<^verbatim>\<open>markAsFailed(id, error)\<close> of the missing adapter marks the
  message \<open>processed = false\<close>, increments \<open>retryCount\<close> and records the error string.
\<close>

definition outboxRepo_markAsFailed :: "world \<Rightarrow> string \<Rightarrow> string \<Rightarrow> (js_error + unit) \<times> world" where
  "outboxRepo_markAsFailed w mid err =
     (case mark_failed_fault w mid of
        Some e \<Rightarrow> (Inl e, w)
      | None \<Rightarrow>
          (Inr (), w \<lparr> outbox :=
             map (\<lambda>m. if msg_id m = mid
                       then m \<lparr> processed := False, retryCount := retryCount m + 1, error := Some err \<rparr>
                       else m)
               (outbox w) \<rparr>))"

subsection \<open>OutboxEventPublisher (infra/adapters/outbox-event-publisher.ts)\<close>

text \<open>\<^verbatim>\<open>publish(topic, eventType, subject, data, dataVersion = '1.0')\<close>.\<close>

definition outbox_publish ::
  "world \<Rightarrow> string \<Rightarrow> string \<Rightarrow> string \<Rightarrow> AvailabilityChangedEventData \<Rightarrow> string option
     \<Rightarrow> (js_error + unit) \<times> world" where
  "outbox_publish w tp et sb d dv =
     (let w1 = w \<lparr> calls := calls w @ [Publish tp et sb d] \<rparr>;
          uuid = uuids w1 (uuid_draws w1);
          w2 = w1 \<lparr> uuid_draws := Suc (uuid_draws w1) \<rparr>
      in outboxRepo_save w2
           \<lparr> msg_id = uuid, topic = tp, eventType = et, subject = sb, data = d,
             dataVersion = (case dv of None \<Rightarrow> ''1.0'' | Some v \<Rightarrow> v),
             eventTime = clock w2, processed = False, processedAt = None, error = None,
             retryCount = 0 \<rparr>)"

subsection \<open>The event bus publisher used by the dispatcher\<close>

text \<open>
  Modelled from the spec: the adapter \<^verbatim>\<open>EventGridPublisher\<close> is not among the sources.
  \<^verbatim>\<open>publish(topic, eventType, subject, data, dataVersion)\<close> hands the envelope to the bus;
  the attempt is recorded and the bus decides whether it succeeds.
\<close>

definition eventGrid_publish ::
  "world \<Rightarrow> string \<Rightarrow> string \<Rightarrow> string \<Rightarrow> AvailabilityChangedEventData \<Rightarrow> string
     \<Rightarrow> (js_error + unit) \<times> world" where
  "eventGrid_publish w tp et sb d dv =
     (let w' = w \<lparr> bus_attempts := bus_attempts w @ [(tp, et, sb, d, dv)] \<rparr> in
      case bus_outcome w (length (bus_attempts w)) of
        Some e \<Rightarrow> (Inl e, w')
      | None \<Rightarrow> (Inr (), w'))"

section \<open>The reconciliation use case (app/update-availability-status.ts)\<close>

datatype result_code = NOT_FOUND | VALIDATION_ERROR | INTERNAL_ERROR

text \<open>The fields \<^verbatim>\<open>data\<close> and \<^verbatim>\<open>error\<close> are written \<open>res_data\<close> and \<open>res_error\<close>.\<close>

record UpdateAvailabilityStatusResult =
  success :: bool
  res_data :: "DeviceAvailability option"
  res_error :: "string option"
  code :: "result_code option"

text \<open>
  \<^verbatim>\<open>existing.reservationId === reservationId\<close>: the stored field is a string or
  undefined, the argument a string, null or undefined; strict equality keeps null and
  undefined apart.
\<close>

fun strict_eq :: "string option \<Rightarrow> nullable_string \<Rightarrow> bool" where
  "strict_eq None Undefined = True"
| "strict_eq (Some a) (Str b) = (a = b)"
| "strict_eq _ _ = False"

text \<open>Lines 81 to 99: publish when the status changed, then return the saved record.\<close>

definition publish_if_changed ::
  "world \<Rightarrow> string option \<Rightarrow> DeviceAvailability \<Rightarrow> (js_error + DeviceAvailability) \<times> world" where
  "publish_if_changed w prev saved =
     (if prev \<noteq> Some (status saved)
      then (case outbox_publish w ''Availability'' AvailabilityChanged (deviceId saved)
                   \<lparr> evt_deviceId = deviceId saved,
                     previousStatus = prev,
                     newStatus = status saved,
                     evt_reservationId = reservationId saved,
                     evt_updatedAt = updatedAt saved \<rparr>
                   None of
              (Inl e, w') \<Rightarrow> (Inl e, w')
            | (Inr u, w') \<Rightarrow> (Inr saved, w'))
      else (Inr saved, w))"

text \<open>The body of the \<^verbatim>\<open>try\<close> block: \<open>Inl\<close> is a thrown value.\<close>

definition updateAvailabilityStatus_try ::
  "world \<Rightarrow> string \<Rightarrow> string \<Rightarrow> nullable_string \<Rightarrow> (js_error + DeviceAvailability) \<times> world" where
  "updateAvailabilityStatus_try w dev newSt rid =
     (case repo_getByDeviceId w dev of
        (Inl e, w1) \<Rightarrow> (Inl e, w1)
      | (Inr (Some existing), w1) \<Rightarrow>
          (if status existing = newSt \<and> strict_eq (reservationId existing) rid
           then (Inr existing, w1)
           else (case updateDeviceAvailability (clock w1) existing (Some newSt) rid of
                   Inl ve \<Rightarrow> (Inl (thrown_validation ve), w1)
                 | Inr updated \<Rightarrow>
                     (case repo_save w1 updated of
                        (Inl e, w2) \<Rightarrow> (Inl e, w2)
                      | (Inr saved, w2) \<Rightarrow> publish_if_changed w2 (Some (status existing)) saved)))
      | (Inr None, w1) \<Rightarrow>
          (case createDeviceAvailability (clock w1) dev (Some newSt) (nullish_to_undefined rid) of
             Inl ve \<Rightarrow> (Inl (thrown_validation ve), w1)
           | Inr newRecord \<Rightarrow>
               (case repo_save w1 newRecord of
                  (Inl e, w2) \<Rightarrow> (Inl e, w2)
                | (Inr saved, w2) \<Rightarrow> publish_if_changed w2 None saved)))"

definition updateAvailabilityStatus ::
  "world \<Rightarrow> string \<Rightarrow> string \<Rightarrow> nullable_string \<Rightarrow> UpdateAvailabilityStatusResult \<times> world" where
  "updateAvailabilityStatus w dev newSt rid =
     (case updateAvailabilityStatus_try w dev newSt rid of
        (Inr a, w') \<Rightarrow>
          (\<lparr> success = True, res_data = Some a, res_error = None, code = None \<rparr>, w')
      | (Inl e, w') \<Rightarrow>
          (\<lparr> success = False, res_data = None, res_error = Some (err_message e),
             code = Some INTERNAL_ERROR \<rparr>, w'))"

section \<open>Deleting a record (app/delete-availability.ts)\<close>

record DeleteAvailabilityResult =
  del_success :: bool
  del_error :: "string option"

definition deleteAvailability :: "world \<Rightarrow> string \<Rightarrow> DeleteAvailabilityResult \<times> world" where
  "deleteAvailability w dev =
     (case repo_delete w dev of
        (Inr u, w') \<Rightarrow> (\<lparr> del_success = True, del_error = None \<rparr>, w')
      | (Inl e, w') \<Rightarrow> (\<lparr> del_success = False, del_error = Some (err_message e) \<rparr>, w'))"

section \<open>The reservation event adapter (functions/reservation-events.ts)\<close>

record EventAvailability =
  av_status :: string
  clearReservation :: bool

definition getAvailabilityFromEvent :: "string \<Rightarrow> EventAvailability option" where
  "getAvailabilityFromEvent et =
     (if et = ''Reservation.Created'' \<or> et = ''Reservation.Collected''
      then Some \<lparr> av_status = Unavailable, clearReservation = False \<rparr>
      else if et = ''Reservation.Returned'' \<or> et = ''Reservation.Cancelled'' \<or> et = ''Reservation.Expired''
      then Some \<lparr> av_status = Available, clearReservation = True \<rparr>
      else None)"

text \<open>
  The fields of the event payload the handler reads; a field missing from the payload
  is \<open>None\<close>.
\<close>

record ReservationEventData =
  rsv_deviceId :: "string option"
  rsv_reservationId :: "string option"

text \<open>
  How an invocation ends: one constructor per \<^verbatim>\<open>return\<close> of the handler, and \<open>Thrown\<close>
  for the \<^verbatim>\<open>throw\<close> that makes the trigger redeliver the event.
\<close>

datatype handler_outcome =
    Skipped_missing_deviceId
  | Skipped_unhandled
  | Skipped_not_found
  | Completed
  | Thrown string

definition handleReservationEvent ::
  "world \<Rightarrow> string \<Rightarrow> ReservationEventData option \<Rightarrow> handler_outcome \<times> world" where
  "handleReservationEvent w et payload =
     (case (case payload of None \<Rightarrow> None | Some d \<Rightarrow> rsv_deviceId d) of
        None \<Rightarrow> (Skipped_missing_deviceId, w)
      | Some dev \<Rightarrow>
          if dev = [] then (Skipped_missing_deviceId, w)
          else
            (case getAvailabilityFromEvent et of
               None \<Rightarrow> (Skipped_unhandled, w)
             | Some availability \<Rightarrow>
                 (let rid = (if clearReservation availability then Null
                             else (case (case payload of None \<Rightarrow> None | Some d \<Rightarrow> rsv_reservationId d) of
                                     None \<Rightarrow> Undefined
                                   | Some r \<Rightarrow> Str r))
                  in case updateAvailabilityStatus w dev (av_status availability) rid of
                       (result, w') \<Rightarrow>
                         if \<not> success result
                         then (if code result \<noteq> Some NOT_FOUND
                               then (Thrown (''Failed to update device '' @ dev @ '': ''
                                       @ (case res_error result of None \<Rightarrow> ''undefined'' | Some e \<Rightarrow> e)), w')
                               else (Skipped_not_found, w'))
                         else (Completed, w'))))"

section \<open>The outbox dispatcher (functions/process-outbox.ts)\<close>

text \<open>The \<^verbatim>\<open>try\<close> block of the loop body: publish on the bus, then mark as processed.\<close>

definition dispatch_try :: "world \<Rightarrow> OutboxMessage \<Rightarrow> (js_error + unit) \<times> world" where
  "dispatch_try w m =
     (case eventGrid_publish w (topic m) (eventType m) (subject m) (data m) (dataVersion m) of
        (Inl e, w1) \<Rightarrow> (Inl e, w1)
      | (Inr u, w1) \<Rightarrow> outboxRepo_markAsProcessed w1 (msg_id m))"

text \<open>The loop body with its \<^verbatim>\<open>catch\<close>: whatever the try block threw is recorded on the message.\<close>

definition dispatch_one :: "world \<Rightarrow> OutboxMessage \<Rightarrow> (js_error + unit) \<times> world" where
  "dispatch_one w m =
     (case dispatch_try w m of
        (Inr u, w1) \<Rightarrow> (Inr (), w1)
      | (Inl e, w1) \<Rightarrow> outboxRepo_markAsFailed w1 (msg_id m) (err_message e))"

text \<open>The \<^verbatim>\<open>for\<close> loop: a throw of the catch block itself leaves the loop.\<close>

fun dispatch_messages :: "world \<Rightarrow> OutboxMessage list \<Rightarrow> (js_error + unit) \<times> world" where
  "dispatch_messages w [] = (Inr (), w)"
| "dispatch_messages w (m # ms) =
     (case dispatch_one w m of
        (Inl e, w1) \<Rightarrow> (Inl e, w1)
      | (Inr u, w1) \<Rightarrow> dispatch_messages w1 ms)"

text \<open>\<^verbatim>\<open>processOutbox\<close>: the outer \<^verbatim>\<open>catch\<close> logs and returns.\<close>

definition processOutbox :: "world \<Rightarrow> world" where
  "processOutbox w =
     (case outboxRepo_listUnprocessed w 20 of
        Inl e \<Rightarrow> w
      | Inr messages \<Rightarrow>
          if messages = [] then w else snd (dispatch_messages w messages))"

section \<open>Fixtures\<close>

text \<open>A world with empty containers, a working store and a working bus.\<close>

definition quiet_world :: world where
  "quiet_world =
     \<lparr> docs = [], partition_path = Path_deviceId, outbox = [], calls = [], clock = 1000,
       uuids = (\<lambda>n. replicate (Suc n) CHR ''u''), uuid_draws = 0,
       read_fault = None, query_fault = None, upsert_fault = None, upsert_no_resource = False,
       delete_fault = None, outbox_save_fault = None, outbox_list_fault = None,
       mark_processed_fault = (\<lambda>k. None), mark_failed_fault = (\<lambda>k. None),
       bus_outcome = (\<lambda>n. None), bus_attempts = [] \<rparr>"

text \<open>The same world holding the record of a device on loan under reservation R1.\<close>

definition held_world :: world where
  "held_world = quiet_world
     \<lparr> docs := [\<lparr> id' = ''D1'', deviceId = ''D1'', status = Unavailable, reservationId = Some ''R1'',
                   lastCheckedAt = 500, updatedAt = 500 \<rparr>] \<rparr>"

text \<open>The world with empty containers whose availability store rejects every write.\<close>

definition store_down_world :: world where
  "store_down_world = quiet_world \<lparr> upsert_fault := Some (JsError (Some 503) ''Service Unavailable'') \<rparr>"

text \<open>Two pending messages in the outbox.\<close>

definition pending_world :: world where
  "pending_world = quiet_world
     \<lparr> outbox :=
         [\<lparr> msg_id = ''m1'', topic = ''Availability'', eventType = AvailabilityChanged, subject = ''D1'',
            data = \<lparr> evt_deviceId = ''D1'', previousStatus = None, newStatus = Unavailable,
                     evt_reservationId = Some ''R1'', evt_updatedAt = 900 \<rparr>,
            dataVersion = ''1.0'', eventTime = 900, processed = False, processedAt = None,
            error = None, retryCount = 0 \<rparr>,
          \<lparr> msg_id = ''m2'', topic = ''Availability'', eventType = AvailabilityChanged, subject = ''D1'',
            data = \<lparr> evt_deviceId = ''D1'', previousStatus = Some Unavailable, newStatus = Available,
                     evt_reservationId = None, evt_updatedAt = 950 \<rparr>,
            dataVersion = ''1.0'', eventTime = 950, processed = False, processedAt = None,
            error = None, retryCount = 0 \<rparr>] \<rparr>"

text \<open>The bus rejects the first publish attempt and accepts the later ones.\<close>

definition flaky_bus_world :: world where
  "flaky_bus_world = pending_world
     \<lparr> bus_outcome := (\<lambda>n. if n = 0 then Some (JsError None ''bus down'') else None) \<rparr>"

text \<open>The bus rejects every publish attempt with an error whose message is empty.\<close>

definition silent_bus_failure_world :: world where
  "silent_bus_failure_world = pending_world \<lparr> bus_outcome := (\<lambda>n. Some (JsError None [])) \<rparr>"

text \<open>The bus accepts every attempt, but the outbox store rejects the mark-as-processed write.\<close>

definition outbox_write_down_world :: world where
  "outbox_write_down_world = pending_world
     \<lparr> mark_processed_fault := (\<lambda>k. Some (JsError (Some 503) ''write failed'')) \<rparr>"

text \<open>
  The bus rejects the first publish attempt, and the outbox store rejects the
  mark-as-failed write.
\<close>

definition failed_write_world :: world where
  "failed_write_world = pending_world
     \<lparr> bus_outcome := (\<lambda>n. if n = 0 then Some (JsError None ''bus down'') else None),
       mark_failed_fault := (\<lambda>k. Some (JsError (Some 503) ''write failed'')) \<rparr>"

text \<open>
  Two pending messages that carry the same id, for two devices; the bus rejects the
  first publish attempt and accepts the second.
\<close>

definition twin_id_world :: world where
  "twin_id_world = quiet_world
     \<lparr> outbox :=
         [\<lparr> msg_id = ''m1'', topic = ''Availability'', eventType = AvailabilityChanged, subject = ''D1'',
            data = \<lparr> evt_deviceId = ''D1'', previousStatus = None, newStatus = Unavailable,
                     evt_reservationId = Some ''R1'', evt_updatedAt = 900 \<rparr>,
            dataVersion = ''1.0'', eventTime = 900, processed = False, processedAt = None,
            error = None, retryCount = 0 \<rparr>,
          \<lparr> msg_id = ''m1'', topic = ''Availability'', eventType = AvailabilityChanged, subject = ''D2'',
            data = \<lparr> evt_deviceId = ''D2'', previousStatus = None, newStatus = Unavailable,
                     evt_reservationId = Some ''R2'', evt_updatedAt = 950 \<rparr>,
            dataVersion = ''1.0'', eventTime = 950, processed = False, processedAt = None,
            error = None, retryCount = 0 \<rparr>],
       bus_outcome := (\<lambda>n. if n = 0 then Some (JsError None ''bus down'') else None) \<rparr>"

text \<open>The world with empty containers, the availability container partitioned by \<^verbatim>\<open>/id\<close>.\<close>

definition quiet_world_by_id :: world where
  "quiet_world_by_id = quiet_world \<lparr> partition_path := Path_id \<rparr>"

section \<open>The effect of one drain on the outbox, for the proofs\<close>

text \<open>
  What the loop body records on a stored message, given what its \<^verbatim>\<open>try\<close> block threw
  (the error of the bus, or else the error of the mark-as-processed write, or nothing),
  and the loop's effect on the outbox when the mark-as-failed write succeeds: the
  \<open>n\<close>-th attempt settles the stored messages that carry the id of the message attempted.
\<close>

definition settle :: "js_error option \<Rightarrow> Date \<Rightarrow> OutboxMessage \<Rightarrow> OutboxMessage" where
  "settle outcome t x =
     (case outcome of
        None \<Rightarrow> x \<lparr> processed := True, processedAt := Some t \<rparr>
      | Some e \<Rightarrow> x \<lparr> processed := False, retryCount := retryCount x + 1, error := Some (err_message e) \<rparr>)"

definition try_outcome :: "world \<Rightarrow> nat \<Rightarrow> OutboxMessage \<Rightarrow> js_error option" where
  "try_outcome w n m =
     (case bus_outcome w n of
        Some e \<Rightarrow> Some e
      | None \<Rightarrow> mark_processed_fault w (msg_id m))"

fun settle_each ::
  "(nat \<Rightarrow> OutboxMessage \<Rightarrow> js_error option) \<Rightarrow> Date \<Rightarrow> nat \<Rightarrow> OutboxMessage list
     \<Rightarrow> OutboxMessage list \<Rightarrow> OutboxMessage list" where
  "settle_each oc t n [] box = box"
| "settle_each oc t n (m # ms) box =
     settle_each oc t (Suc n) ms (map (\<lambda>x. if msg_id x = msg_id m then settle (oc n m) t x else x) box)"

section \<open>Properties of the transition engine\<close>

lemma trim_blank: "trim ''  '' = []"
  by (simp add: trim_def is_ws_def)

lemma trim_D1: "trim ''D1'' = ''D1''"
  by (simp add: trim_def is_ws_def)

lemma trim_pad_D1: "trim '' D1 '' = ''D1''"
  by (simp add: trim_def is_ws_def)



lemma validate_fails:
  "validateDeviceAvailability dev st = Inl e \<longleftrightarrow>
     (trim dev = [] \<and> e = DeviceAvailabilityError ''deviceId'' ''Device ID must be a non-empty string.'')
   \<or> (trim dev \<noteq> [] \<and> st \<notin> {Available, Unavailable, Maintenance, Retired, Lost}
        \<and> e = DeviceAvailabilityError ''status'' ''Status must be a valid AvailabilityStatus.'')"
  by (auto simp: validateDeviceAvailability_def trim_def AvailabilityStatus_values_def)

lemma validate_ok:
  "validateDeviceAvailability dev st = Inr u \<longleftrightarrow>
     trim dev \<noteq> [] \<and> st \<in> {Available, Unavailable, Maintenance, Retired, Lost}"
  by (auto simp: validateDeviceAvailability_def trim_def AvailabilityStatus_values_def)

lemma create_Inl:
  "createDeviceAvailability now d st r = Inl e \<longleftrightarrow>
     validateDeviceAvailability d (case st of None \<Rightarrow> Available | Some s \<Rightarrow> s) = Inl e"
  by (simp add: createDeviceAvailability_def Let_def split: sum.splits)

lemma create_Inr:
  "createDeviceAvailability now d st r = Inr a \<longleftrightarrow>
     validateDeviceAvailability d (case st of None \<Rightarrow> Available | Some s \<Rightarrow> s) = Inr ()
     \<and> a = \<lparr> id' = d, deviceId = trim d, status = (case st of None \<Rightarrow> Available | Some s \<Rightarrow> s),
             reservationId = map_option trim r, lastCheckedAt = now, updatedAt = now \<rparr>"
  by (auto simp add: createDeviceAvailability_def Let_def split: sum.splits)

lemma update_Inl:
  "updateDeviceAvailability now ex st r = Inl e \<longleftrightarrow>
     validateDeviceAvailability (deviceId ex) (case st of None \<Rightarrow> status ex | Some s \<Rightarrow> s) = Inl e"
  by (simp add: updateDeviceAvailability_def Let_def split: sum.splits)

lemma update_Inr:
  "updateDeviceAvailability now ex st r = Inr a \<longleftrightarrow>
     validateDeviceAvailability (deviceId ex) (case st of None \<Rightarrow> status ex | Some s \<Rightarrow> s) = Inr ()
     \<and> a = ex \<lparr> status := (case st of None \<Rightarrow> status ex | Some s \<Rightarrow> s),
                reservationId := (case r of Null \<Rightarrow> None | Undefined \<Rightarrow> reservationId ex | Str v \<Rightarrow> Some v),
                lastCheckedAt := now, updatedAt := now \<rparr>"
  by (auto simp add: updateDeviceAvailability_def Let_def split: sum.splits)

text \<open>
  Claim C5 (validation law). \<open>createDeviceAvailability\<close> and \<open>updateDeviceAvailability\<close>
  fail exactly when the device id is blank after trimming or the effective status (the
  given one, else \<open>Available\<close> for create and the existing one for update) lies outside
  the five enumerated values; the error names the offending field (\<open>deviceId\<close> checked
  first, then \<open>status\<close>); a created record has status \<open>Available\<close> when none is given,
  and both of its timestamps are \<open>now\<close>.
\<close>

theorem validation_law:
  "((\<exists>e. createDeviceAvailability now d st r = Inl e) \<longleftrightarrow>
      (trim d = [] \<or> (case st of None \<Rightarrow> Available | Some s \<Rightarrow> s)
                        \<notin> {Available, Unavailable, Maintenance, Retired, Lost}))
   \<and> ((\<exists>e. updateDeviceAvailability now ex ust ur = Inl e) \<longleftrightarrow>
      (trim (deviceId ex) = [] \<or> (case ust of None \<Rightarrow> status ex | Some s \<Rightarrow> s)
                        \<notin> {Available, Unavailable, Maintenance, Retired, Lost}))
   \<and> (\<forall>e. createDeviceAvailability now d st r = Inl e \<longrightarrow>
          field e = (if trim d = [] then ''deviceId'' else ''status''))
   \<and> (\<forall>e. updateDeviceAvailability now ex ust ur = Inl e \<longrightarrow>
          field e = (if trim (deviceId ex) = [] then ''deviceId'' else ''status''))
   \<and> (\<forall>a. createDeviceAvailability now d None r = Inr a \<longrightarrow> status a = Available)
   \<and> (\<forall>a. createDeviceAvailability now d st r = Inr a \<longrightarrow>
          lastCheckedAt a = now \<and> updatedAt a = now)"
proof (intro conjI allI impI)
  show "(\<exists>e. createDeviceAvailability now d st r = Inl e) \<longleftrightarrow>
      (trim d = [] \<or> (case st of None \<Rightarrow> Available | Some s \<Rightarrow> s)
                        \<notin> {Available, Unavailable, Maintenance, Retired, Lost})"
    unfolding create_Inl validate_fails by blast
  show "(\<exists>e. updateDeviceAvailability now ex ust ur = Inl e) \<longleftrightarrow>
      (trim (deviceId ex) = [] \<or> (case ust of None \<Rightarrow> status ex | Some s \<Rightarrow> s)
                        \<notin> {Available, Unavailable, Maintenance, Retired, Lost})"
    unfolding update_Inl validate_fails by blast
next
  fix e assume "createDeviceAvailability now d st r = Inl e"
  then show "field e = (if trim d = [] then ''deviceId'' else ''status'')"
    unfolding create_Inl validate_fails by auto
next
  fix e assume "updateDeviceAvailability now ex ust ur = Inl e"
  then show "field e = (if trim (deviceId ex) = [] then ''deviceId'' else ''status'')"
    unfolding update_Inl validate_fails by auto
next
  fix a assume "createDeviceAvailability now d None r = Inr a"
  then show "status a = Available" unfolding create_Inr by simp
next
  fix a assume a: "createDeviceAvailability now d st r = Inr a"
  from a show "lastCheckedAt a = now" unfolding create_Inr by simp
  from a show "updatedAt a = now" unfolding create_Inr by simp
qed

text \<open>
  The law at a blank device id, at a status outside the enumeration on an existing
  record, and at a well-formed creation without a status.
\<close>

theorem validation_law_witness:
  "(\<exists>e. createDeviceAvailability 5 ''  '' (Some ''Broken'') None = Inl e \<and> field e = ''deviceId'')
   \<and> (\<exists>e. updateDeviceAvailability 5
             \<lparr> id' = ''D1'', deviceId = ''D1'', status = Available, reservationId = None,
               lastCheckedAt = 5, updatedAt = 5 \<rparr> (Some ''Broken'') Undefined = Inl e
           \<and> field e = ''status'')
   \<and> (\<exists>a. createDeviceAvailability 5 ''D1'' None (Some ''R1'') = Inr a
           \<and> status a = Available \<and> lastCheckedAt a = 5 \<and> updatedAt a = 5)"
proof -
  let ?ex = "\<lparr> id' = ''D1'', deviceId = ''D1'', status = Available, reservationId = None,
               lastCheckedAt = 5, updatedAt = 5 \<rparr>"
  note bad = validation_law [where now = 5 and d = "''  ''" and st = "Some ''Broken''" and r = None
    and ex = ?ex and ust = "Some ''Broken''" and ur = Undefined]
  note good = validation_law [where now = 5 and d = "''D1''" and st = None and r = "Some ''R1''"
    and ex = ?ex and ust = None and ur = Undefined]
  have c: "\<exists>e. createDeviceAvailability 5 ''  '' (Some ''Broken'') None = Inl e"
    using bad by (simp add: trim_blank)
  have u: "\<exists>e. updateDeviceAvailability 5 ?ex (Some ''Broken'') Undefined = Inl e"
    using bad by (simp add: trim_D1)
  have g: "\<exists>a. createDeviceAvailability 5 ''D1'' None (Some ''R1'') = Inr a"
    by (simp add: create_Inr validate_ok trim_D1)
  from c bad have 1: "\<exists>e. createDeviceAvailability 5 ''  '' (Some ''Broken'') None = Inl e \<and> field e = ''deviceId''"
    by (auto simp: trim_blank)
  from u bad have 2: "\<exists>e. updateDeviceAvailability 5 ?ex (Some ''Broken'') Undefined = Inl e \<and> field e = ''status''"
    by (auto simp: trim_D1)
  from g good have 3: "\<exists>a. createDeviceAvailability 5 ''D1'' None (Some ''R1'') = Inr a
           \<and> status a = Available \<and> lastCheckedAt a = 5 \<and> updatedAt a = 5"
    by blast
  from 1 2 3 show ?thesis by blast
qed

text \<open>
  Claim C4, as stated, at the empty string: the update stores the empty string as the
  reservation id; the field is not cleared.
\<close>

theorem update_empty_string_not_cleared:
  "updateDeviceAvailability 7
     \<lparr> id' = ''D1'', deviceId = ''D1'', status = Unavailable, reservationId = Some ''R1'',
       lastCheckedAt = 5, updatedAt = 5 \<rparr> None (Str [])
   = Inr \<lparr> id' = ''D1'', deviceId = ''D1'', status = Unavailable, reservationId = Some [],
           lastCheckedAt = 7, updatedAt = 7 \<rparr>"
  by (simp add: update_Inr validate_ok trim_D1)

text \<open>
  Claim C4 (three-way reservationId semantics), amended. Whenever
  \<open>updateDeviceAvailability\<close> returns a record: an omitted reservationId keeps the
  existing one, the explicit null clears it, and a string (the empty string included)
  replaces it; both timestamps are \<open>now\<close>. On an existing record that passes validation
  (device id not blank, status in the enumeration) the update without any parameter
  succeeds and changes the two timestamps only, and an update to an enumerated status
  succeeds whatever the reservationId parameter is.
\<close>

theorem update_reservationId_three_way:
  "(\<forall>a. updateDeviceAvailability now ex st p = Inr a \<longrightarrow>
        (p = Undefined \<longrightarrow> reservationId a = reservationId ex)
      \<and> (p = Null \<longrightarrow> reservationId a = None)
      \<and> (\<forall>v. p = Str v \<longrightarrow> reservationId a = Some v)
      \<and> lastCheckedAt a = now \<and> updatedAt a = now)
   \<and> (trim (deviceId ex) \<noteq> [] \<and> status ex \<in> {Available, Unavailable, Maintenance, Retired, Lost} \<longrightarrow>
        updateDeviceAvailability now ex None Undefined
          = Inr (ex \<lparr> lastCheckedAt := now, updatedAt := now \<rparr>))
   \<and> (trim (deviceId ex) \<noteq> [] \<and> s \<in> {Available, Unavailable, Maintenance, Retired, Lost} \<longrightarrow>
        (\<exists>a. updateDeviceAvailability now ex (Some s) p = Inr a))"
proof (intro conjI allI impI)
  fix a assume a: "updateDeviceAvailability now ex st p = Inr a"
  then have r: "reservationId a =
      (case p of Null \<Rightarrow> None | Undefined \<Rightarrow> reservationId ex | Str v \<Rightarrow> Some v)"
    by (simp add: update_Inr)
  { assume "p = Undefined" with r show "reservationId a = reservationId ex" by simp }
  { assume "p = Null" with r show "reservationId a = None" by simp }
  { fix v assume "p = Str v" with r show "reservationId a = Some v" by simp }
  from a show "lastCheckedAt a = now" and "updatedAt a = now"
    by (simp_all add: update_Inr)
next
  assume "trim (deviceId ex) \<noteq> [] \<and> status ex \<in> {Available, Unavailable, Maintenance, Retired, Lost}"
  then have "validateDeviceAvailability (deviceId ex) (status ex) = Inr ()"
    by (simp add: validate_ok)
  then show "updateDeviceAvailability now ex None Undefined
          = Inr (ex \<lparr> lastCheckedAt := now, updatedAt := now \<rparr>)"
    by (simp add: update_Inr)
next
  assume "trim (deviceId ex) \<noteq> [] \<and> s \<in> {Available, Unavailable, Maintenance, Retired, Lost}"
  then have "validateDeviceAvailability (deviceId ex) s = Inr ()"
    by (simp add: validate_ok)
  then show "\<exists>a. updateDeviceAvailability now ex (Some s) p = Inr a"
    by (simp add: update_Inr)
qed

text \<open>
  The three shapes of the parameter and the update without parameters, on a held device.
\<close>

theorem update_reservationId_three_way_witness:
  "(\<exists>a. updateDeviceAvailability 7
           \<lparr> id' = ''D1'', deviceId = ''D1'', status = Unavailable, reservationId = Some ''R1'',
             lastCheckedAt = 5, updatedAt = 5 \<rparr> (Some Available) Null = Inr a
         \<and> reservationId a = None \<and> lastCheckedAt a = 7 \<and> updatedAt a = 7)
   \<and> (\<exists>a. updateDeviceAvailability 7
           \<lparr> id' = ''D1'', deviceId = ''D1'', status = Unavailable, reservationId = Some ''R1'',
             lastCheckedAt = 5, updatedAt = 5 \<rparr> (Some Available) (Str ''R2'') = Inr a
         \<and> reservationId a = Some ''R2'')
   \<and> (\<exists>a. updateDeviceAvailability 7
           \<lparr> id' = ''D1'', deviceId = ''D1'', status = Unavailable, reservationId = Some ''R1'',
             lastCheckedAt = 5, updatedAt = 5 \<rparr> (Some Available) Undefined = Inr a
         \<and> reservationId a = Some ''R1'')
   \<and> updateDeviceAvailability 7
           \<lparr> id' = ''D1'', deviceId = ''D1'', status = Unavailable, reservationId = Some ''R1'',
             lastCheckedAt = 5, updatedAt = 5 \<rparr> None Undefined
       = Inr \<lparr> id' = ''D1'', deviceId = ''D1'', status = Unavailable, reservationId = Some ''R1'',
             lastCheckedAt = 7, updatedAt = 7 \<rparr>"
proof -
  let ?ex = "\<lparr> id' = ''D1'', deviceId = ''D1'', status = Unavailable, reservationId = Some ''R1'',
             lastCheckedAt = 5, updatedAt = 5 \<rparr>"
  have v: "trim (deviceId ?ex) \<noteq> []" by (simp add: trim_D1)
  have 1: "\<exists>a. updateDeviceAvailability 7 ?ex (Some Available) Null = Inr a
         \<and> reservationId a = None \<and> lastCheckedAt a = 7 \<and> updatedAt a = 7"
    using update_reservationId_three_way
      [where now = 7 and ex = ?ex and st = "Some Available" and p = Null and s = Available] v
    by auto
  have 2: "\<exists>a. updateDeviceAvailability 7 ?ex (Some Available) (Str ''R2'') = Inr a
         \<and> reservationId a = Some ''R2''"
    using update_reservationId_three_way
      [where now = 7 and ex = ?ex and st = "Some Available" and p = "Str ''R2''" and s = Available] v
    by auto
  have 3: "\<exists>a. updateDeviceAvailability 7 ?ex (Some Available) Undefined = Inr a
         \<and> reservationId a = Some ''R1''"
    using update_reservationId_three_way
      [where now = 7 and ex = ?ex and st = "Some Available" and p = Undefined and s = Available] v
    by auto
  have 4: "updateDeviceAvailability 7 ?ex None Undefined
       = Inr \<lparr> id' = ''D1'', deviceId = ''D1'', status = Unavailable, reservationId = Some ''R1'',
             lastCheckedAt = 7, updatedAt = 7 \<rparr>"
    using update_reservationId_three_way
      [where now = 7 and ex = ?ex and st = None and p = Undefined and s = Available] v
    by simp
  from 1 2 3 4 show ?thesis by blast
qed

text \<open>
  Claim C9 (identity invariant) at a device id with surrounding blanks:
  \<open>createDeviceAvailability\<close> trims \<open>deviceId\<close> but not \<open>id\<close>, so the record's id differs
  from its device id.
\<close>

theorem create_untrimmed_id_differs:
  "createDeviceAvailability 5 '' D1 '' None None
     = Inr \<lparr> id' = '' D1 '', deviceId = ''D1'', status = Available, reservationId = None,
             lastCheckedAt = 5, updatedAt = 5 \<rparr>"
  by (simp add: create_Inr validate_ok trim_pad_D1)

section \<open>Properties of the reconciliation use case\<close>

lemmas store_defs =
  item_read_def items_query_def items_upsert_def item_delete_def is_item_def partition_key_def
  mapToDomain_def repo_save_def repo_getByDeviceId_def getByDeviceId_catch_def repo_delete_def
  outboxRepo_save_def outbox_publish_def publish_if_changed_def isNotFound_def wrapError_def

lemmas usecase_defs =
  updateAvailabilityStatus_def updateAvailabilityStatus_try_def deleteAvailability_def
  createDeviceAvailability_def updateDeviceAvailability_def validateDeviceAvailability_def
  AvailabilityStatus_values_def thrown_validation_def

lemma trim_R1: "trim ''R1'' = ''R1''"
  by (simp add: trim_def is_ws_def)

lemma getByDeviceId_world:
  "snd (repo_getByDeviceId w d) = w \<lparr> calls := calls w @ [GetByDeviceId d] \<rparr>"
  by (simp add: repo_getByDeviceId_def Let_def)

lemma repo_save_Inr:
  "repo_save w a = (Inr saved, w') \<Longrightarrow>
     saved = a \<and> outbox w' = outbox w \<and> uuids w' = uuids w \<and> uuid_draws w' = uuid_draws w
     \<and> clock w' = clock w \<and> outbox_save_fault w' = outbox_save_fault w
     \<and> calls w' = calls w @ [Save a]"
  by (auto simp: repo_save_def items_upsert_def mapToDomain_def
           split: option.splits sum.splits prod.splits if_splits)

lemma publish_if_changed_Inr:
  "publish_if_changed w prev saved = (Inr x, w') \<Longrightarrow>
     x = saved \<and>
     (if prev = Some (status saved) then w' = w
      else outbox w' = outbox w @
             [\<lparr> msg_id = uuids w (uuid_draws w), topic = ''Availability'',
                eventType = AvailabilityChanged, subject = deviceId saved,
                data = \<lparr> evt_deviceId = deviceId saved, previousStatus = prev,
                         newStatus = status saved, evt_reservationId = reservationId saved,
                         evt_updatedAt = updatedAt saved \<rparr>,
                dataVersion = ''1.0'', eventTime = clock w, processed = False,
                processedAt = None, error = None, retryCount = 0 \<rparr>])"
  by (auto simp: publish_if_changed_def outbox_publish_def outboxRepo_save_def Let_def
           split: option.splits sum.splits prod.splits if_splits)

lemma try_cases:
  assumes "updateAvailabilityStatus_try w d S R = (Inr a, w')"
  obtains (short) ex where "fst (repo_getByDeviceId w d) = Inr (Some ex)" "status ex = S"
       "strict_eq (reservationId ex) R" "a = ex" "w' = snd (repo_getByDeviceId w d)"
   | (updated) ex upd saved w2 where "fst (repo_getByDeviceId w d) = Inr (Some ex)"
       "\<not> (status ex = S \<and> strict_eq (reservationId ex) R)"
       "updateDeviceAvailability (clock w) ex (Some S) R = Inr upd"
       "repo_save (snd (repo_getByDeviceId w d)) upd = (Inr saved, w2)"
       "publish_if_changed w2 (Some (status ex)) saved = (Inr a, w')"
   | (created) new saved w2 where "fst (repo_getByDeviceId w d) = Inr None"
       "createDeviceAvailability (clock w) d (Some S) (nullish_to_undefined R) = Inr new"
       "repo_save (snd (repo_getByDeviceId w d)) new = (Inr saved, w2)"
       "publish_if_changed w2 None saved = (Inr a, w')"
proof -
  obtain g w1 where g: "repo_getByDeviceId w d = (g, w1)" by (cases "repo_getByDeviceId w d")
  have w1: "w1 = w \<lparr> calls := calls w @ [GetByDeviceId d] \<rparr>"
    using getByDeviceId_world [of w d] g by simp
  then have ck: "clock w1 = clock w" by simp
  show thesis
  proof (cases g)
    case (Inl e)
    with assms g show ?thesis by (simp add: updateAvailabilityStatus_try_def)
  next
    case (Inr found)
    show ?thesis
    proof (cases found)
      case None
      with Inr g assms ck show ?thesis
        by (auto simp: updateAvailabilityStatus_try_def split: sum.splits prod.splits
                 intro: created)
    next
      case (Some ex)
      show ?thesis
      proof (cases "status ex = S \<and> strict_eq (reservationId ex) R")
        case True
        with Some Inr g assms show ?thesis
          by (auto simp: updateAvailabilityStatus_try_def intro: short)
      next
        case False
        with Some Inr g assms ck show ?thesis
          by (auto simp: updateAvailabilityStatus_try_def split: sum.splits prod.splits
                 intro: updated)
      qed
    qed
  qed
qed

lemma outbox_after_save_publish:
  assumes s: "repo_save w1 rec = (Inr saved, w2)"
      and p: "publish_if_changed w2 prev saved = (Inr a, w')"
      and o: "outbox w1 = outbox w" "uuids w1 = uuids w" "uuid_draws w1 = uuid_draws w" "clock w1 = clock w"
  shows "a = rec \<and>
     (if prev = Some (status rec) then outbox w' = outbox w
      else outbox w' = outbox w @
             [\<lparr> msg_id = uuids w (uuid_draws w), topic = ''Availability'',
                eventType = AvailabilityChanged, subject = deviceId rec,
                data = \<lparr> evt_deviceId = deviceId rec, previousStatus = prev,
                         newStatus = status rec, evt_reservationId = reservationId rec,
                         evt_updatedAt = updatedAt rec \<rparr>,
                dataVersion = ''1.0'', eventTime = clock w, processed = False,
                processedAt = None, error = None, retryCount = 0 \<rparr>])"
proof -
  from repo_save_Inr [OF s] have sv: "saved = rec" "outbox w2 = outbox w1" "uuids w2 = uuids w1"
    "uuid_draws w2 = uuid_draws w1" "clock w2 = clock w1" by simp_all
  from publish_if_changed_Inr [OF p] sv o show ?thesis
    by (auto split: if_splits)
qed

text \<open>
  The event decision relative to the repository's own read. For every call of
  \<open>updateAvailabilityStatus\<close> that succeeds (the read, the save and the publish did not
  throw): the record returned has the requested status, and the outbox grows by exactly
  one \<open>Availability.Changed\<close> message when that status differs from the status of the
  record that \<open>getByDeviceId\<close> returned (none when it returned no record) and is
  unchanged otherwise. The message carries the device id, the previous status, the new
  status, the reservation id and \<open>updatedAt\<close> of the saved record.
\<close>

theorem event_on_change_by_read:
  assumes run: "updateAvailabilityStatus w d S R = (res, w')" and ok: "success res"
  shows "\<exists>prior saved.
           fst (repo_getByDeviceId w d) = Inr prior
         \<and> res_data res = Some saved \<and> status saved = S
         \<and> (if map_option status prior = Some (status saved)
            then outbox w' = outbox w
            else outbox w' = outbox w @
                   [\<lparr> msg_id = uuids w (uuid_draws w), topic = ''Availability'',
                      eventType = AvailabilityChanged, subject = deviceId saved,
                      data = \<lparr> evt_deviceId = deviceId saved,
                               previousStatus = map_option status prior,
                               newStatus = status saved,
                               evt_reservationId = reservationId saved,
                               evt_updatedAt = updatedAt saved \<rparr>,
                      dataVersion = ''1.0'', eventTime = clock w, processed = False,
                      processedAt = None, error = None, retryCount = 0 \<rparr>])"
proof -
  from run ok obtain a where t: "updateAvailabilityStatus_try w d S R = (Inr a, w')"
    and r: "res_data res = Some a"
    by (auto simp: updateAvailabilityStatus_def split: prod.splits sum.splits)
  let ?w1 = "snd (repo_getByDeviceId w d)"
  have w1: "outbox ?w1 = outbox w" "uuids ?w1 = uuids w" "uuid_draws ?w1 = uuid_draws w"
    "clock ?w1 = clock w"
    by (simp_all add: getByDeviceId_world)
  from t show ?thesis
  proof (cases rule: try_cases)
    case (short ex)
    with r w1 show ?thesis by simp
  next
    case (updated ex upd saved w2)
    from outbox_after_save_publish [OF updated(4,5) w1] updated(1,3) r
    show ?thesis by (auto simp: update_Inr)
  next
    case (created new saved w2)
    from outbox_after_save_publish [OF created(3,4) w1] created(1,2) r
    show ?thesis by (auto simp: create_Inr)
  qed
qed


text \<open>
  On a first reservation of an unknown device (one event) and on a change of the
  reservation id of a device already unavailable (a save, no event).
\<close>

lemma event_on_change_by_read_at_D1:
  "success (fst (updateAvailabilityStatus quiet_world ''D1'' Unavailable (Str ''R1'')))
   \<and> outbox (snd (updateAvailabilityStatus quiet_world ''D1'' Unavailable (Str ''R1'')))
       = [\<lparr> msg_id = ''u'', topic = ''Availability'', eventType = AvailabilityChanged,
            subject = ''D1'',
            data = \<lparr> evt_deviceId = ''D1'', previousStatus = None, newStatus = Unavailable,
                     evt_reservationId = Some ''R1'', evt_updatedAt = 1000 \<rparr>,
            dataVersion = ''1.0'', eventTime = 1000, processed = False,
            processedAt = None, error = None, retryCount = 0 \<rparr>]
   \<and> success (fst (updateAvailabilityStatus held_world ''D1'' Unavailable (Str ''R2'')))
   \<and> docs (snd (updateAvailabilityStatus held_world ''D1'' Unavailable (Str ''R2'')))
       = [\<lparr> id' = ''D1'', deviceId = ''D1'', status = Unavailable, reservationId = Some ''R2'',
            lastCheckedAt = 1000, updatedAt = 1000 \<rparr>]
   \<and> outbox (snd (updateAvailabilityStatus held_world ''D1'' Unavailable (Str ''R2''))) = []"
proof -
  let ?a = "updateAvailabilityStatus quiet_world ''D1'' Unavailable (Str ''R1'')"
  let ?b = "updateAvailabilityStatus held_world ''D1'' Unavailable (Str ''R2'')"
  have a: "fst ?a = \<lparr> success = True,
       res_data = Some \<lparr> id' = ''D1'', deviceId = ''D1'', status = Unavailable,
                         reservationId = Some ''R1'', lastCheckedAt = 1000, updatedAt = 1000 \<rparr>,
       res_error = None, code = None \<rparr>"
    by (simp add: quiet_world_def usecase_defs store_defs trim_D1 trim_R1 Let_def)
  have b: "fst ?b = \<lparr> success = True,
       res_data = Some \<lparr> id' = ''D1'', deviceId = ''D1'', status = Unavailable,
                         reservationId = Some ''R2'', lastCheckedAt = 1000, updatedAt = 1000 \<rparr>,
       res_error = None, code = None \<rparr>"
    by (simp add: held_world_def quiet_world_def usecase_defs store_defs trim_D1 Let_def)
  have bd: "docs (snd ?b) = [\<lparr> id' = ''D1'', deviceId = ''D1'', status = Unavailable,
       reservationId = Some ''R2'', lastCheckedAt = 1000, updatedAt = 1000 \<rparr>]"
    by (simp add: held_world_def quiet_world_def usecase_defs store_defs trim_D1 Let_def)
  have ga: "fst (repo_getByDeviceId quiet_world ''D1'') = Inr None"
    by (simp add: quiet_world_def store_defs Let_def)
  have gb: "fst (repo_getByDeviceId held_world ''D1'') =
      Inr (Some \<lparr> id' = ''D1'', deviceId = ''D1'', status = Unavailable, reservationId = Some ''R1'',
                   lastCheckedAt = 500, updatedAt = 500 \<rparr>)"
    by (simp add: held_world_def quiet_world_def store_defs Let_def)
  have sa: "success (fst ?a)" and sb: "success (fst ?b)" by (simp_all add: a b)
  have pa: "?a = (fst ?a, snd ?a)" and pb: "?b = (fst ?b, snd ?b)" by simp_all
  have q: "uuids quiet_world (uuid_draws quiet_world) = ''u''" "clock quiet_world = 1000"
    "outbox quiet_world = []" "outbox held_world = []"
    by (simp_all add: held_world_def quiet_world_def)
  from event_on_change_by_read [OF pa sa]
  have 1: "outbox (snd ?a) = [\<lparr> msg_id = ''u'', topic = ''Availability'', eventType = AvailabilityChanged,
            subject = ''D1'',
            data = \<lparr> evt_deviceId = ''D1'', previousStatus = None, newStatus = Unavailable,
                     evt_reservationId = Some ''R1'', evt_updatedAt = 1000 \<rparr>,
            dataVersion = ''1.0'', eventTime = 1000, processed = False,
            processedAt = None, error = None, retryCount = 0 \<rparr>]"
    by (simp add: a ga q)
  from event_on_change_by_read [OF pb sb]
  have 2: "outbox (snd ?b) = []"
    by (simp add: b gb q)
  from sa sb 1 2 bd show ?thesis by simp
qed

text \<open>
  Claim C2 (event-on-change law) at a device id with surrounding blanks. Two calls of
  \<open>updateAvailabilityStatus\<close> for the device id \<open>'' D1 ''\<close>, both with status
  \<open>Unavailable\<close>, the first under reservation R1 and the second under R2, on a store
  without records whose container is partitioned by device id. Both calls succeed. The
  first stores the record with id \<open>'' D1 ''\<close> and device id \<open>''D1''\<close>. The read of the
  second call addresses the item by \<open>'' D1 ''\<close> as id and as partition key and misses the
  record, so the call takes the creating branch: it overwrites the stored record and
  enqueues a second \<open>Availability.Changed\<close> message with previous status null, although
  the persisted status of the device is \<open>Unavailable\<close> before and after and only the
  reservation id changed. On a container partitioned by id the same happens when the
  second call names the device \<open>''D1''\<close>, and the store then holds two records of the
  device.
\<close>

theorem padded_id_reservation_change_enqueues:
  "(let a = updateAvailabilityStatus quiet_world '' D1 '' Unavailable (Str ''R1'');
        b = updateAvailabilityStatus (snd a) '' D1 '' Unavailable (Str ''R2'')
    in success (fst a)
     \<and> docs (snd a)
         = [\<lparr> id' = '' D1 '', deviceId = ''D1'', status = Unavailable, reservationId = Some ''R1'',
              lastCheckedAt = 1000, updatedAt = 1000 \<rparr>]
     \<and> success (fst b)
     \<and> docs (snd b)
         = [\<lparr> id' = '' D1 '', deviceId = ''D1'', status = Unavailable, reservationId = Some ''R2'',
              lastCheckedAt = 1000, updatedAt = 1000 \<rparr>]
     \<and> outbox (snd b)
         = [\<lparr> msg_id = ''u'', topic = ''Availability'', eventType = AvailabilityChanged,
              subject = ''D1'',
              data = \<lparr> evt_deviceId = ''D1'', previousStatus = None, newStatus = Unavailable,
                       evt_reservationId = Some ''R1'', evt_updatedAt = 1000 \<rparr>,
              dataVersion = ''1.0'', eventTime = 1000, processed = False, processedAt = None,
              error = None, retryCount = 0 \<rparr>,
            \<lparr> msg_id = ''uu'', topic = ''Availability'', eventType = AvailabilityChanged,
              subject = ''D1'',
              data = \<lparr> evt_deviceId = ''D1'', previousStatus = None, newStatus = Unavailable,
                       evt_reservationId = Some ''R2'', evt_updatedAt = 1000 \<rparr>,
              dataVersion = ''1.0'', eventTime = 1000, processed = False, processedAt = None,
              error = None, retryCount = 0 \<rparr>])
   \<and> (let a = updateAvailabilityStatus quiet_world_by_id '' D1 '' Unavailable (Str ''R1'');
          b = updateAvailabilityStatus (snd a) ''D1'' Unavailable (Str ''R2'')
      in success (fst a)
       \<and> docs (snd a)
           = [\<lparr> id' = '' D1 '', deviceId = ''D1'', status = Unavailable, reservationId = Some ''R1'',
                lastCheckedAt = 1000, updatedAt = 1000 \<rparr>]
       \<and> success (fst b)
       \<and> docs (snd b)
           = [\<lparr> id' = '' D1 '', deviceId = ''D1'', status = Unavailable, reservationId = Some ''R1'',
                lastCheckedAt = 1000, updatedAt = 1000 \<rparr>,
              \<lparr> id' = ''D1'', deviceId = ''D1'', status = Unavailable, reservationId = Some ''R2'',
                lastCheckedAt = 1000, updatedAt = 1000 \<rparr>]
       \<and> outbox (snd b)
           = [\<lparr> msg_id = ''u'', topic = ''Availability'', eventType = AvailabilityChanged,
                subject = ''D1'',
                data = \<lparr> evt_deviceId = ''D1'', previousStatus = None, newStatus = Unavailable,
                         evt_reservationId = Some ''R1'', evt_updatedAt = 1000 \<rparr>,
                dataVersion = ''1.0'', eventTime = 1000, processed = False, processedAt = None,
                error = None, retryCount = 0 \<rparr>,
              \<lparr> msg_id = ''uu'', topic = ''Availability'', eventType = AvailabilityChanged,
                subject = ''D1'',
                data = \<lparr> evt_deviceId = ''D1'', previousStatus = None, newStatus = Unavailable,
                         evt_reservationId = Some ''R2'', evt_updatedAt = 1000 \<rparr>,
                dataVersion = ''1.0'', eventTime = 1000, processed = False, processedAt = None,
                error = None, retryCount = 0 \<rparr>])"
  by (simp add: usecase_defs store_defs quiet_world_by_id_def quiet_world_def
        trim_D1 trim_pad_D1 trim_R1 trim_def [of "''R2''"] is_ws_def Let_def)

section \<open>Properties of the adapters and of deletion\<close>

lemma quiet_fields:
  "docs quiet_world = []" "outbox quiet_world = []" "calls quiet_world = []"
  "clock quiet_world = 1000" "uuids quiet_world n = replicate (Suc n) CHR ''u''"
  "uuid_draws quiet_world = 0"
  "read_fault quiet_world = None" "upsert_fault quiet_world = None"
  "\<not> upsert_no_resource quiet_world" "outbox_save_fault quiet_world = None"
  "delete_fault quiet_world = None" "partition_path quiet_world = Path_deviceId"
  by (simp_all add: quiet_world_def)

lemma held_fields:
  "docs held_world = [\<lparr> id' = ''D1'', deviceId = ''D1'', status = Unavailable,
       reservationId = Some ''R1'', lastCheckedAt = 500, updatedAt = 500 \<rparr>]"
  "outbox held_world = []" "calls held_world = []" "clock held_world = 1000"
  "uuids held_world n = replicate (Suc n) CHR ''u''" "uuid_draws held_world = 0"
  "read_fault held_world = None" "upsert_fault held_world = None"
  "\<not> upsert_no_resource held_world" "outbox_save_fault held_world = None"
  "delete_fault held_world = None" "partition_path held_world = Path_deviceId"
  by (simp_all add: held_world_def quiet_world_def)





lemma find_filter_not: "find P (filter (\<lambda>x. \<not> P x) xs) = None"
  by (induction xs) simp_all

lemma is_item_frame:
  "partition_path w' = partition_path w \<Longrightarrow> is_item w' = is_item w"
  by (intro ext) (simp add: is_item_def partition_key_def)

lemma repo_delete_ok:
  assumes "delete_fault w = None"
  shows "\<exists>w1. repo_delete w d = (Inr (), w1)
           \<and> docs w1 = filter (\<lambda>x. \<not> is_item w d d x) (docs w)
           \<and> partition_path w1 = partition_path w \<and> delete_fault w1 = None
           \<and> read_fault w1 = read_fault w
           \<and> calls w1 = calls w @ [Delete d]"
proof -
  have it: "is_item (w \<lparr> calls := cs \<rparr>) = is_item w" for cs
    by (rule is_item_frame) simp
  have nf: "find (is_item w d d) (docs w) = None \<Longrightarrow>
        filter (\<lambda>x. \<not> is_item w d d x) (docs w) = docs w"
    by (simp add: find_None_iff)
  show ?thesis using assms
    by (auto simp: repo_delete_def item_delete_def isNotFound_def it nf split: prod.splits)
qed

text \<open>
  Deletion relative to the repository's own addressing. When the store's delete throws
  nothing but the not-found error of a missing item, \<open>deleteAvailability\<close> succeeds
  without error whether or not an item is addressed by the given id, and succeeds again
  when repeated; after each call no item is addressed by the given id as id and as
  partition key, the second call changes no document, a call that addresses no item
  changes no document, and a following \<open>getByDeviceId\<close> finds nothing.
\<close>

theorem deletion_by_address:
  assumes "delete_fault w = None"
  shows "\<exists>w1 w2.
           deleteAvailability w d = (\<lparr> del_success = True, del_error = None \<rparr>, w1)
         \<and> deleteAvailability w1 d = (\<lparr> del_success = True, del_error = None \<rparr>, w2)
         \<and> find (is_item w1 d d) (docs w1) = None
         \<and> find (is_item w2 d d) (docs w2) = None
         \<and> docs w2 = docs w1
         \<and> (find (is_item w d d) (docs w) = None \<longrightarrow> docs w1 = docs w)
         \<and> (read_fault w = None \<longrightarrow> fst (repo_getByDeviceId w2 d) = Inr None)"
proof -
  from repo_delete_ok [OF assms, of d] obtain w1 where
    1: "repo_delete w d = (Inr (), w1)" "docs w1 = filter (\<lambda>x. \<not> is_item w d d x) (docs w)"
       "partition_path w1 = partition_path w" "delete_fault w1 = None" "read_fault w1 = read_fault w"
    by blast
  from repo_delete_ok [OF 1(4), of d] obtain w2 where
    2: "repo_delete w1 d = (Inr (), w2)" "docs w2 = filter (\<lambda>x. \<not> is_item w1 d d x) (docs w1)"
       "partition_path w2 = partition_path w1" "read_fault w2 = read_fault w1"
    by blast
  have i1: "is_item w1 = is_item w" using 1(3) by (rule is_item_frame)
  have i2: "is_item w2 = is_item w" using 1(3) 2(3) by (intro is_item_frame) simp
  have f1: "find (is_item w1 d d) (docs w1) = None"
    by (simp add: i1 1(2) find_filter_not)
  have d2: "docs w2 = docs w1"
    using f1 by (simp add: 2(2) find_None_iff)
  have f2: "find (is_item w2 d d) (docs w2) = None"
    using f1 by (simp add: i2 i1 d2)
  have d1: "find (is_item w d d) (docs w) = None \<Longrightarrow> docs w1 = docs w"
    by (simp add: 1(2) find_None_iff)
  have g: "read_fault w = None \<Longrightarrow> fst (repo_getByDeviceId w2 d) = Inr None"
  proof -
    assume r: "read_fault w = None"
    have "is_item (w2 \<lparr> calls := cs \<rparr>) = is_item w2" for cs
      by (rule is_item_frame) simp
    with f2 r 1(5) 2(4) show ?thesis
      by (simp add: repo_getByDeviceId_def item_read_def Let_def)
  qed
  from 1(1) 2(1) f1 f2 d2 d1 g show ?thesis
    by (auto simp: deleteAvailability_def)
qed

text \<open>Deleting the held device twice, and deleting a device that never had a record.\<close>

lemma deletion_by_address_at_D1:
  "delete_fault held_world = None
   \<and> fst (deleteAvailability held_world ''D1'') = \<lparr> del_success = True, del_error = None \<rparr>
   \<and> docs (snd (deleteAvailability held_world ''D1'')) = []
   \<and> fst (deleteAvailability (snd (deleteAvailability held_world ''D1'')) ''D1'')
       = \<lparr> del_success = True, del_error = None \<rparr>
   \<and> docs (snd (deleteAvailability (snd (deleteAvailability held_world ''D1'')) ''D1'')) = []
   \<and> fst (deleteAvailability quiet_world ''D9'') = \<lparr> del_success = True, del_error = None \<rparr>"
proof -
  have h: "delete_fault held_world = None" by (simp add: held_fields)
  have q: "delete_fault quiet_world = None" by (simp add: quiet_fields)
  have d: "docs (snd (deleteAvailability held_world ''D1'')) = []"
    by (simp add: deleteAvailability_def repo_delete_def item_delete_def is_item_def
          partition_key_def held_fields)
  from deletion_by_address [OF h, of "''D1''"] obtain w1 w2 where
    1: "deleteAvailability held_world ''D1'' = (\<lparr> del_success = True, del_error = None \<rparr>, w1)"
    and 2: "deleteAvailability w1 ''D1'' = (\<lparr> del_success = True, del_error = None \<rparr>, w2)"
    and 3: "docs w2 = docs w1"
    by blast
  from deletion_by_address [OF q, of "''D9''"]
  have 4: "fst (deleteAvailability quiet_world ''D9'') = \<lparr> del_success = True, del_error = None \<rparr>"
    by auto
  from 1 d have "docs w1 = []" by simp
  with h 1 2 3 4 show ?thesis by simp
qed

text \<open>
  Claim C8 (deletion idempotence) at a device id with surrounding blanks. The record of
  the device is the one \<open>updateAvailabilityStatus\<close> stores for the device id
  \<open>'' D1 ''\<close> on a store without records: its id is \<open>'' D1 ''\<close> and its device id
  \<open>''D1''\<close>. On a container partitioned by device id, \<open>deleteAvailability\<close> for
  \<open>'' D1 ''\<close> succeeds, succeeds again when repeated, and leaves the record in the store;
  so does \<open>deleteAvailability\<close> for \<open>''D1''\<close>: either id, taken as id and as partition
  key, addresses no item, and the not-found error of the store is absorbed. On a
  container partitioned by id, \<open>deleteAvailability\<close> for \<open>''D1''\<close> succeeds and leaves
  the record as well.
\<close>

theorem padded_record_survives_delete:
  "(let w1 = snd (updateAvailabilityStatus quiet_world '' D1 '' Unavailable (Str ''R1''));
        w2 = snd (deleteAvailability w1 '' D1 '')
    in docs w1
         = [\<lparr> id' = '' D1 '', deviceId = ''D1'', status = Unavailable, reservationId = Some ''R1'',
              lastCheckedAt = 1000, updatedAt = 1000 \<rparr>]
     \<and> fst (deleteAvailability w1 '' D1 '') = \<lparr> del_success = True, del_error = None \<rparr>
     \<and> docs w2 = docs w1
     \<and> fst (deleteAvailability w2 '' D1 '') = \<lparr> del_success = True, del_error = None \<rparr>
     \<and> docs (snd (deleteAvailability w2 '' D1 '')) = docs w1
     \<and> fst (deleteAvailability w1 ''D1'') = \<lparr> del_success = True, del_error = None \<rparr>
     \<and> docs (snd (deleteAvailability w1 ''D1'')) = docs w1)
   \<and> (let w1 = snd (updateAvailabilityStatus quiet_world_by_id '' D1 '' Unavailable (Str ''R1''))
      in docs w1
           = [\<lparr> id' = '' D1 '', deviceId = ''D1'', status = Unavailable, reservationId = Some ''R1'',
                lastCheckedAt = 1000, updatedAt = 1000 \<rparr>]
       \<and> fst (deleteAvailability w1 ''D1'') = \<lparr> del_success = True, del_error = None \<rparr>
       \<and> docs (snd (deleteAvailability w1 ''D1'')) = docs w1)"
  by (simp add: usecase_defs store_defs quiet_world_by_id_def quiet_world_def
        trim_D1 trim_pad_D1 trim_R1 Let_def)

lemma handle_unhandled:
  "getAvailabilityFromEvent et = None \<Longrightarrow>
     handleReservationEvent w et payload = (Skipped_missing_deviceId, w)
   \<or> handleReservationEvent w et payload = (Skipped_unhandled, w)"
  by (simp add: handleReservationEvent_def split: option.splits)

text \<open>
  Claim C7 (reservation event mapping). \<open>getAvailabilityFromEvent\<close> maps Created and
  Collected to \<open>Unavailable\<close> without clearing the reservation, Returned, Cancelled and
  Expired to \<open>Available\<close> with clearing, and every other event type to nothing; for
  such an event the handler returns before calling \<open>updateAvailabilityStatus\<close>, leaving
  the world (the stores and the log of calls) as it was.
\<close>

theorem reservation_event_mapping:
  "getAvailabilityFromEvent ''Reservation.Created'' = Some \<lparr> av_status = Unavailable, clearReservation = False \<rparr>
   \<and> getAvailabilityFromEvent ''Reservation.Collected'' = Some \<lparr> av_status = Unavailable, clearReservation = False \<rparr>
   \<and> getAvailabilityFromEvent ''Reservation.Returned'' = Some \<lparr> av_status = Available, clearReservation = True \<rparr>
   \<and> getAvailabilityFromEvent ''Reservation.Cancelled'' = Some \<lparr> av_status = Available, clearReservation = True \<rparr>
   \<and> getAvailabilityFromEvent ''Reservation.Expired'' = Some \<lparr> av_status = Available, clearReservation = True \<rparr>
   \<and> (et \<notin> {''Reservation.Created'', ''Reservation.Collected'', ''Reservation.Returned'',
               ''Reservation.Cancelled'', ''Reservation.Expired''} \<longrightarrow>
        getAvailabilityFromEvent et = None
        \<and> snd (handleReservationEvent w et payload) = w
        \<and> fst (handleReservationEvent w et payload) \<in> {Skipped_missing_deviceId, Skipped_unhandled})"
proof (intro conjI impI)
  assume a: "et \<notin> {''Reservation.Created'', ''Reservation.Collected'', ''Reservation.Returned'',
               ''Reservation.Cancelled'', ''Reservation.Expired''}"
  then show n: "getAvailabilityFromEvent et = None"
    by (simp add: getAvailabilityFromEvent_def)
  from handle_unhandled [OF n, of w payload]
  show "snd (handleReservationEvent w et payload) = w"
    and "fst (handleReservationEvent w et payload) \<in> {Skipped_missing_deviceId, Skipped_unhandled}"
    by auto
qed (simp_all add: getAvailabilityFromEvent_def)

text \<open>An event type outside the table, for a device that has a record.\<close>

theorem reservation_event_mapping_witness:
  "getAvailabilityFromEvent ''Reservation.Extended'' = None
   \<and> handleReservationEvent held_world ''Reservation.Extended''
        (Some \<lparr> rsv_deviceId = Some ''D1'', rsv_reservationId = Some ''R1'' \<rparr>)
       = (Skipped_unhandled, held_world)"
proof -
  let ?h = "handleReservationEvent held_world ''Reservation.Extended''
        (Some \<lparr> rsv_deviceId = Some ''D1'', rsv_reservationId = Some ''R1'' \<rparr>)"
  have o: "fst ?h \<noteq> Skipped_missing_deviceId"
    by (simp add: handleReservationEvent_def getAvailabilityFromEvent_def)
  from reservation_event_mapping [of "''Reservation.Extended''" held_world
      "Some \<lparr> rsv_deviceId = Some ''D1'', rsv_reservationId = Some ''R1'' \<rparr>"]
  have "getAvailabilityFromEvent ''Reservation.Extended'' = None"
    and "snd ?h = held_world"
    and "fst ?h \<in> {Skipped_missing_deviceId, Skipped_unhandled}"
    by simp_all
  with o show ?thesis by (cases ?h) auto
qed


lemma result_shape:
  "(\<exists>a w'. updateAvailabilityStatus w d S R =
        (\<lparr> success = True, res_data = Some a, res_error = None, code = None \<rparr>, w'))
   \<or> (\<exists>m w'. updateAvailabilityStatus w d S R =
        (\<lparr> success = False, res_data = None, res_error = Some m, code = Some INTERNAL_ERROR \<rparr>, w'))"
  by (simp add: updateAvailabilityStatus_def split: prod.splits sum.splits)

text \<open>
  Claim C10 (failures are always INTERNAL_ERROR). Whatever the store, the publisher or
  validation do, a failed \<open>updateAvailabilityStatus\<close> carries the code
  \<open>INTERNAL_ERROR\<close> and an error message; every value thrown inside its \<^verbatim>\<open>try\<close> block
  becomes such a result, so nothing is raised; the codes \<open>NOT_FOUND\<close> and
  \<open>VALIDATION_ERROR\<close> never appear. Hence the reservation handler never ends in its
  not-found branch, and whenever it reaches the update and the update fails, it throws.
\<close>

theorem failure_code_always_internal:
  "(\<not> success (fst (updateAvailabilityStatus w d S R)) \<longrightarrow>
        code (fst (updateAvailabilityStatus w d S R)) = Some INTERNAL_ERROR
      \<and> (\<exists>m. res_error (fst (updateAvailabilityStatus w d S R)) = Some m))
   \<and> (\<forall>e w'. updateAvailabilityStatus_try w d S R = (Inl e, w') \<longrightarrow>
        updateAvailabilityStatus w d S R =
          (\<lparr> success = False, res_data = None, res_error = Some (err_message e),
             code = Some INTERNAL_ERROR \<rparr>, w'))
   \<and> code (fst (updateAvailabilityStatus w d S R)) \<noteq> Some NOT_FOUND
   \<and> code (fst (updateAvailabilityStatus w d S R)) \<noteq> Some VALIDATION_ERROR
   \<and> fst (handleReservationEvent w et payload) \<noteq> Skipped_not_found
   \<and> (\<forall>p dev av.
         payload = Some p \<and> rsv_deviceId p = Some dev \<and> dev \<noteq> []
         \<and> getAvailabilityFromEvent et = Some av
         \<and> \<not> success (fst (updateAvailabilityStatus w dev (av_status av)
                 (if clearReservation av then Null
                  else case rsv_reservationId p of None \<Rightarrow> Undefined | Some r \<Rightarrow> Str r)))
         \<longrightarrow> (\<exists>msg. fst (handleReservationEvent w et payload) = Thrown msg))"
proof (intro conjI allI impI)
  note r = result_shape [of w d S R]
  { assume "\<not> success (fst (updateAvailabilityStatus w d S R))"
    with r show "code (fst (updateAvailabilityStatus w d S R)) = Some INTERNAL_ERROR" by auto
    from \<open>\<not> success (fst (updateAvailabilityStatus w d S R))\<close> r
    show "\<exists>m. res_error (fst (updateAvailabilityStatus w d S R)) = Some m" by auto }
  { fix e w' assume "updateAvailabilityStatus_try w d S R = (Inl e, w')"
    then show "updateAvailabilityStatus w d S R =
          (\<lparr> success = False, res_data = None, res_error = Some (err_message e),
             code = Some INTERNAL_ERROR \<rparr>, w')"
      by (simp add: updateAvailabilityStatus_def) }
  from r show "code (fst (updateAvailabilityStatus w d S R)) \<noteq> Some NOT_FOUND" by auto
  from r show "code (fst (updateAvailabilityStatus w d S R)) \<noteq> Some VALIDATION_ERROR" by auto
next
  show "fst (handleReservationEvent w et payload) \<noteq> Skipped_not_found"
  proof (cases "case payload of None \<Rightarrow> None | Some p \<Rightarrow> rsv_deviceId p")
    case None
    then show ?thesis by (simp add: handleReservationEvent_def)
  next
    case (Some dev)
    show ?thesis
    proof (cases "getAvailabilityFromEvent et")
      case None
      with Some show ?thesis by (simp add: handleReservationEvent_def)
    next
      case (Some av)
      let ?rid = "if clearReservation av then Null
                  else (case (case payload of None \<Rightarrow> None | Some p \<Rightarrow> rsv_reservationId p) of
                          None \<Rightarrow> Undefined | Some r \<Rightarrow> Str r)"
      from result_shape [of w dev "av_status av" ?rid] Some \<open>(case payload of None \<Rightarrow> None | Some p \<Rightarrow> rsv_deviceId p) = Some dev\<close>
      show ?thesis
        by (auto simp: handleReservationEvent_def Let_def)
    qed
  qed
next
  fix p dev av
  assume a: "payload = Some p \<and> rsv_deviceId p = Some dev \<and> dev \<noteq> []
         \<and> getAvailabilityFromEvent et = Some av
         \<and> \<not> success (fst (updateAvailabilityStatus w dev (av_status av)
                 (if clearReservation av then Null
                  else case rsv_reservationId p of None \<Rightarrow> Undefined | Some r \<Rightarrow> Str r)))"
  let ?rid = "if clearReservation av then Null
                  else case rsv_reservationId p of None \<Rightarrow> Undefined | Some r \<Rightarrow> Str r"
  from a result_shape [of w dev "av_status av" ?rid]
  show "\<exists>msg. fst (handleReservationEvent w et payload) = Thrown msg"
    by (auto simp: handleReservationEvent_def Let_def)
qed


text \<open>
  A validation failure (a blank device id) and a store failure (the save is rejected)
  behind a \<open>Reservation.Created\<close> event.
\<close>

theorem failure_code_always_internal_witness:
  "fst (updateAvailabilityStatus quiet_world ''  '' Available Undefined)
     = \<lparr> success = False, res_data = None,
         res_error = Some ''Device ID must be a non-empty string.'',
         code = Some INTERNAL_ERROR \<rparr>
   \<and> \<not> success (fst (updateAvailabilityStatus store_down_world ''D1'' Unavailable (Str ''R1'')))
   \<and> (\<exists>msg. fst (handleReservationEvent store_down_world ''Reservation.Created''
                 (Some \<lparr> rsv_deviceId = Some ''D1'', rsv_reservationId = Some ''R1'' \<rparr>))
              = Thrown msg)"
proof -
  let ?p = "\<lparr> rsv_deviceId = Some ''D1'', rsv_reservationId = Some ''R1'' \<rparr>"
  have t: "updateAvailabilityStatus_try quiet_world ''  '' Available Undefined
      = (Inl (JsError None ''Device ID must be a non-empty string.''),
         quiet_world \<lparr> calls := [GetByDeviceId ''  ''] \<rparr>)"
    by (simp add: usecase_defs store_defs quiet_world_def trim_blank Let_def)
  from failure_code_always_internal [of quiet_world "''  ''" Available Undefined] t
  have 1: "fst (updateAvailabilityStatus quiet_world ''  '' Available Undefined)
     = \<lparr> success = False, res_data = None,
         res_error = Some ''Device ID must be a non-empty string.'',
         code = Some INTERNAL_ERROR \<rparr>"
    by simp
  have 2: "\<not> success (fst (updateAvailabilityStatus store_down_world ''D1'' Unavailable (Str ''R1'')))"
    by (simp add: usecase_defs store_defs store_down_world_def quiet_world_def trim_D1 trim_R1 Let_def)
  have g: "getAvailabilityFromEvent ''Reservation.Created''
      = Some \<lparr> av_status = Unavailable, clearReservation = False \<rparr>"
    by (simp add: getAvailabilityFromEvent_def)
  from failure_code_always_internal
    [where w = store_down_world and et = "''Reservation.Created''" and payload = "Some ?p"] g 2
  have 3: "\<exists>msg. fst (handleReservationEvent store_down_world ''Reservation.Created'' (Some ?p))
              = Thrown msg"
    by simp
  from 1 2 3 show ?thesis by blast
qed


text \<open>
  Claim C1 (idempotence) at a clearing call made twice: \<open>updateAvailabilityStatus\<close> for
  D1 with status \<open>Available\<close> and reservation id null, on a store without a record, and
  the same call again a second later. The stored reservation id is undefined, the
  argument is null, the strict comparison fails, and the second call saves again: the
  log of calls holds two saves (and one publish).
\<close>

theorem replayed_clear_saves_again:
  "calls (snd (updateAvailabilityStatus
                 (snd (updateAvailabilityStatus quiet_world ''D1'' Available Null) \<lparr> clock := 2000 \<rparr>)
                 ''D1'' Available Null))
   = [GetByDeviceId ''D1'',
      Save \<lparr> id' = ''D1'', deviceId = ''D1'', status = Available, reservationId = None,
             lastCheckedAt = 1000, updatedAt = 1000 \<rparr>,
      Publish ''Availability'' AvailabilityChanged ''D1''
        \<lparr> evt_deviceId = ''D1'', previousStatus = None, newStatus = Available,
          evt_reservationId = None, evt_updatedAt = 1000 \<rparr>,
      GetByDeviceId ''D1'',
      Save \<lparr> id' = ''D1'', deviceId = ''D1'', status = Available, reservationId = None,
             lastCheckedAt = 2000, updatedAt = 2000 \<rparr>]"
  by (simp add: usecase_defs store_defs quiet_world_def trim_D1 Let_def)

section \<open>Properties of the outbox dispatcher\<close>

lemma msg_id_settle: "msg_id (settle outcome t x) = msg_id x"
  by (simp add: settle_def split: option.splits)

lemma dispatch_one_settles:
  assumes "\<forall>k. mark_failed_fault w k = None"
  shows "dispatch_one w m =
           (Inr (),
            w \<lparr> bus_attempts := bus_attempts w @ [(topic m, eventType m, subject m, data m, dataVersion m)],
                outbox := map (\<lambda>x. if msg_id x = msg_id m
                                     then settle (try_outcome w (length (bus_attempts w)) m) (clock w) x
                                     else x) (outbox w) \<rparr>)"
proof (cases "bus_outcome w (length (bus_attempts w))")
  case (Some e)
  with assms show ?thesis
    by (simp add: dispatch_one_def dispatch_try_def eventGrid_publish_def Let_def
          outboxRepo_markAsFailed_def settle_def try_outcome_def)
next
  case None
  show ?thesis
  proof (cases "mark_processed_fault w (msg_id m)")
    case None
    with \<open>bus_outcome w (length (bus_attempts w)) = None\<close> show ?thesis
      by (simp add: dispatch_one_def dispatch_try_def eventGrid_publish_def Let_def
            outboxRepo_markAsProcessed_def settle_def try_outcome_def)
  next
    case (Some e)
    with \<open>bus_outcome w (length (bus_attempts w)) = None\<close> assms show ?thesis
      by (simp add: dispatch_one_def dispatch_try_def eventGrid_publish_def Let_def
            outboxRepo_markAsProcessed_def outboxRepo_markAsFailed_def settle_def try_outcome_def)
  qed
qed

lemma try_outcome_frame:
  "bus_outcome w' = bus_outcome w \<Longrightarrow> mark_processed_fault w' = mark_processed_fault w
     \<Longrightarrow> try_outcome w' = try_outcome w"
  by (intro ext) (simp add: try_outcome_def split: option.splits)

lemma dispatch_messages_settles:
  assumes "\<forall>k. mark_failed_fault w k = None"
  shows "dispatch_messages w ms =
           (Inr (),
            w \<lparr> bus_attempts := bus_attempts w
                    @ map (\<lambda>m. (topic m, eventType m, subject m, data m, dataVersion m)) ms,
                outbox := settle_each (try_outcome w) (clock w) (length (bus_attempts w)) ms (outbox w) \<rparr>)"
  using assms
proof (induction ms arbitrary: w)
  case Nil
  then show ?case by simp
next
  case (Cons m ms)
  let ?w1 = "w \<lparr> bus_attempts := bus_attempts w @ [(topic m, eventType m, subject m, data m, dataVersion m)],
                outbox := map (\<lambda>x. if msg_id x = msg_id m
                                     then settle (try_outcome w (length (bus_attempts w)) m) (clock w) x
                                     else x) (outbox w) \<rparr>"
  have one: "dispatch_one w m = (Inr (), ?w1)"
    using Cons.prems by (rule dispatch_one_settles)
  have f: "\<forall>k. mark_failed_fault ?w1 k = None"
    using Cons.prems by simp
  have t: "try_outcome ?w1 = try_outcome w"
    by (rule try_outcome_frame) simp_all
  show ?case
    by (simp add: one Cons.IH [OF f] t)
qed

lemma find_map_same_id:
  assumes "\<And>x. msg_id (g x) = msg_id x"
  shows "find (\<lambda>x. msg_id x = k) (map g box) = map_option g (find (\<lambda>x. msg_id x = k) box)"
  by (induction box) (simp_all add: assms)

lemma find_settle_each_other:
  "k \<notin> msg_id ` set ms \<Longrightarrow>
     find (\<lambda>x. msg_id x = k) (settle_each oc t n ms box) = find (\<lambda>x. msg_id x = k) box"
proof (induction ms arbitrary: n box)
  case Nil
  then show ?case by simp
next
  case (Cons m ms)
  let ?g = "\<lambda>x. if msg_id x = msg_id m then settle (oc n m) t x else x"
  from Cons.prems have k: "k \<noteq> msg_id m" "k \<notin> msg_id ` set ms" by auto
  have "find (\<lambda>x. msg_id x = k) (map ?g box) = find (\<lambda>x. msg_id x = k) box"
    using k(1) by (induction box) (simp_all add: msg_id_settle)
  with Cons.IH [OF k(2)] show ?case by simp
qed

lemma find_settle_each_nth:
  assumes "distinct (map msg_id ms)" "i < length ms"
      and "find (\<lambda>x. msg_id x = msg_id (ms ! i)) box = Some x0"
  shows "find (\<lambda>x. msg_id x = msg_id (ms ! i)) (settle_each oc t n ms box)
           = Some (settle (oc (n + i) (ms ! i)) t x0)"
  using assms
proof (induction ms arbitrary: n box i x0)
  case Nil
  then show ?case by simp
next
  case (Cons m ms)
  let ?g = "\<lambda>x. if msg_id x = msg_id m then settle (oc n m) t x else x"
  have g: "msg_id (?g x) = msg_id x" for x by (simp add: msg_id_settle)
  show ?case
  proof (cases i)
    case 0
    from Cons.prems(1) have nk: "msg_id m \<notin> msg_id ` set ms" by simp
    from Cons.prems(3) 0 have f0: "find (\<lambda>x. msg_id x = msg_id m) box = Some x0" by simp
    then have x0: "msg_id x0 = msg_id m" by (auto simp: find_Some_iff)
    have "find (\<lambda>x. msg_id x = msg_id m) (map ?g box) = Some (settle (oc n m) t x0)"
      unfolding find_map_same_id [of ?g, OF g] using f0 x0 by simp
    with 0 find_settle_each_other [OF nk, of oc t "Suc n" "map ?g box"] show ?thesis by simp
  next
    case (Suc j)
    with Cons.prems have j: "distinct (map msg_id ms)" "j < length ms"
      and fj: "find (\<lambda>x. msg_id x = msg_id (ms ! j)) box = Some x0"
      by auto
    from Cons.prems(1) j(2) have ne: "msg_id (ms ! j) \<noteq> msg_id m"
      by (metis distinct.simps(2) image_eqI list.simps(9) nth_mem set_map)
    from fj have x0: "msg_id x0 = msg_id (ms ! j)" by (auto simp: find_Some_iff)
    have "find (\<lambda>x. msg_id x = msg_id (ms ! j)) (map ?g box) = Some x0"
      unfolding find_map_same_id [of ?g, OF g] using fj x0 ne by simp
    from Cons.IH [OF j this, of "Suc n"] Suc show ?thesis by simp
  qed
qed

lemma find_by_id_distinct:
  "distinct (map msg_id box) \<Longrightarrow> m \<in> set box \<Longrightarrow> find (\<lambda>x. msg_id x = msg_id m) box = Some m"
  by (induction box) (auto simp: image_iff)


text \<open>
  Claim C3 (outbox delivery law), amended. In a drain whose mark-as-failed write does
  not throw, on an outbox whose message ids are distinct. When the fetch throws, the
  drain changes nothing. Otherwise at most 20 messages are fetched, all of them pending
  messages of the outbox; each fetched message is attempted on the bus exactly once, in
  the order fetched, whatever the other attempts did; and afterwards the stored message
  of each fetched message is processed when its publish and its mark-as-processed write
  both succeeded, and otherwise (the publish threw, or the publish succeeded and the
  mark-as-processed write threw) is unprocessed with its retry count increased by
  exactly one and its error set to the message of the error thrown.
\<close>

theorem outbox_delivery_law:
  assumes failed_ok: "\<forall>k. mark_failed_fault w k = None"
      and ids: "distinct (map msg_id (outbox w))"
  shows "case outboxRepo_listUnprocessed w 20 of
           Inl e \<Rightarrow> processOutbox w = w
         | Inr batch \<Rightarrow>
             length batch \<le> 20
           \<and> (\<forall>m \<in> set batch. m \<in> set (outbox w) \<and> \<not> processed m)
           \<and> bus_attempts (processOutbox w)
               = bus_attempts w @ map (\<lambda>m. (topic m, eventType m, subject m, data m, dataVersion m)) batch
           \<and> (\<forall>i < length batch.
                \<exists>m'. find (\<lambda>x. msg_id x = msg_id (batch ! i)) (outbox (processOutbox w)) = Some m'
                  \<and> (case bus_outcome w (length (bus_attempts w) + i) of
                        Some e \<Rightarrow> \<not> processed m' \<and> retryCount m' = retryCount (batch ! i) + 1
                                   \<and> error m' = Some (err_message e)
                      | None \<Rightarrow>
                          (case mark_processed_fault w (msg_id (batch ! i)) of
                             None \<Rightarrow> processed m'
                           | Some e \<Rightarrow> \<not> processed m' \<and> retryCount m' = retryCount (batch ! i) + 1
                                        \<and> error m' = Some (err_message e))))"
proof (cases "outboxRepo_listUnprocessed w 20")
  case (Inl e)
  then show ?thesis by (simp add: processOutbox_def)
next
  case (Inr batch)
  then have b: "batch = take 20 (filter (\<lambda>m. \<not> processed m) (outbox w))"
    by (simp add: outboxRepo_listUnprocessed_def split: option.splits)
  have len: "length batch \<le> 20" by (simp add: b)
  have sub: "\<forall>m \<in> set batch. m \<in> set (outbox w) \<and> \<not> processed m"
    unfolding b by (auto dest: in_set_takeD)
  have dist: "distinct (map msg_id batch)"
    unfolding b using ids by (simp add: distinct_map_filter take_map [symmetric] distinct_take)
  have run: "processOutbox w =
      w \<lparr> bus_attempts := bus_attempts w
              @ map (\<lambda>m. (topic m, eventType m, subject m, data m, dataVersion m)) batch,
          outbox := settle_each (try_outcome w) (clock w) (length (bus_attempts w)) batch (outbox w) \<rparr>"
    using Inr by (simp add: processOutbox_def dispatch_messages_settles [OF failed_ok])
  have each: "\<exists>m'. find (\<lambda>x. msg_id x = msg_id (batch ! i)) (outbox (processOutbox w)) = Some m'
              \<and> (case bus_outcome w (length (bus_attempts w) + i) of
                    Some e \<Rightarrow> \<not> processed m' \<and> retryCount m' = retryCount (batch ! i) + 1
                               \<and> error m' = Some (err_message e)
                  | None \<Rightarrow>
                      (case mark_processed_fault w (msg_id (batch ! i)) of
                         None \<Rightarrow> processed m'
                       | Some e \<Rightarrow> \<not> processed m' \<and> retryCount m' = retryCount (batch ! i) + 1
                                    \<and> error m' = Some (err_message e)))"
    if i: "i < length batch" for i
  proof -
    from i sub have "batch ! i \<in> set (outbox w)" by simp
    with ids have "find (\<lambda>x. msg_id x = msg_id (batch ! i)) (outbox w) = Some (batch ! i)"
      by (rule find_by_id_distinct)
    from find_settle_each_nth [OF dist i this]
    show ?thesis
      by (simp add: run settle_def try_outcome_def split: option.splits)
  qed
  from len sub run each Inr show ?thesis by simp
qed


lemmas dispatcher_defs =
  processOutbox_def outboxRepo_listUnprocessed_def dispatch_one_def dispatch_try_def
  eventGrid_publish_def outboxRepo_markAsProcessed_def outboxRepo_markAsFailed_def

lemma pending_fields:
  "outbox pending_world ! 0 =
      \<lparr> msg_id = ''m1'', topic = ''Availability'', eventType = AvailabilityChanged, subject = ''D1'',
            data = \<lparr> evt_deviceId = ''D1'', previousStatus = None, newStatus = Unavailable,
                     evt_reservationId = Some ''R1'', evt_updatedAt = 900 \<rparr>,
            dataVersion = ''1.0'', eventTime = 900, processed = False, processedAt = None,
            error = None, retryCount = 0 \<rparr>"
  "outbox pending_world ! Suc 0 =
      \<lparr> msg_id = ''m2'', topic = ''Availability'', eventType = AvailabilityChanged, subject = ''D1'',
            data = \<lparr> evt_deviceId = ''D1'', previousStatus = Some Unavailable, newStatus = Available,
                     evt_reservationId = None, evt_updatedAt = 950 \<rparr>,
            dataVersion = ''1.0'', eventTime = 950, processed = False, processedAt = None,
            error = None, retryCount = 0 \<rparr>"
  "length (outbox pending_world) = 2"
  "distinct (map msg_id (outbox pending_world))"
  by (simp_all add: pending_world_def)

text \<open>
  Two pending messages. With a bus that rejects the first attempt and accepts the
  second, the first message is left for a retry and the second is processed. With a bus
  that accepts both and a store that rejects the mark-as-processed write, the second
  message is left for a retry with the error of the store.
\<close>

theorem outbox_delivery_law_witness:
  "(\<exists>m'. find (\<lambda>x. msg_id x = ''m1'') (outbox (processOutbox flaky_bus_world)) = Some m'
         \<and> \<not> processed m' \<and> retryCount m' = 1 \<and> error m' = Some ''bus down'')
   \<and> (\<exists>m'. find (\<lambda>x. msg_id x = ''m2'') (outbox (processOutbox flaky_bus_world)) = Some m'
         \<and> processed m')
   \<and> length (bus_attempts (processOutbox flaky_bus_world)) = 2
   \<and> (\<exists>m'. find (\<lambda>x. msg_id x = ''m2'') (outbox (processOutbox outbox_write_down_world)) = Some m'
         \<and> \<not> processed m' \<and> retryCount m' = 1 \<and> error m' = Some ''write failed'')"
proof -
  let ?w = flaky_bus_world
  let ?v = outbox_write_down_world
  have f: "outboxRepo_listUnprocessed ?w 20 = Inr (outbox pending_world)"
    "outboxRepo_listUnprocessed ?v 20 = Inr (outbox pending_world)"
    by (simp_all add: outboxRepo_listUnprocessed_def flaky_bus_world_def outbox_write_down_world_def
          pending_world_def quiet_world_def)
  have ok: "\<forall>k. mark_failed_fault ?w k = None" "\<forall>k. mark_failed_fault ?v k = None"
    by (simp_all add: flaky_bus_world_def outbox_write_down_world_def pending_world_def quiet_world_def)
  have d: "distinct (map msg_id (outbox ?w))" "distinct (map msg_id (outbox ?v))"
    by (simp_all add: flaky_bus_world_def outbox_write_down_world_def pending_fields)
  have w: "bus_attempts ?w = []" "bus_outcome ?w 0 = Some (JsError None ''bus down'')"
    "bus_outcome ?w (Suc 0) = None" "mark_processed_fault ?w k = None" for k
    by (simp_all add: flaky_bus_world_def pending_world_def quiet_world_def)
  have v: "bus_attempts ?v = []" "bus_outcome ?v n = None"
    "mark_processed_fault ?v k = Some (JsError (Some 503) ''write failed'')" for n k
    by (simp_all add: outbox_write_down_world_def pending_world_def quiet_world_def)
  note lw = outbox_delivery_law [OF ok(1) d(1), unfolded f sum.case]
  note lv = outbox_delivery_law [OF ok(2) d(2), unfolded f sum.case]
  from lw have a: "length (bus_attempts (processOutbox ?w)) = 2"
    by (simp add: w pending_fields)
  from lw have ew: "\<exists>m'. find (\<lambda>x. msg_id x = msg_id (outbox pending_world ! i)) (outbox (processOutbox ?w)) = Some m'
              \<and> (case bus_outcome ?w (length (bus_attempts ?w) + i) of
                    Some e \<Rightarrow> \<not> processed m' \<and> retryCount m' = retryCount (outbox pending_world ! i) + 1
                               \<and> error m' = Some (err_message e)
                  | None \<Rightarrow>
                      (case mark_processed_fault ?w (msg_id (outbox pending_world ! i)) of
                         None \<Rightarrow> processed m'
                       | Some e \<Rightarrow> \<not> processed m' \<and> retryCount m' = retryCount (outbox pending_world ! i) + 1
                                    \<and> error m' = Some (err_message e)))" if "i < 2" for i
    using that by (simp add: pending_fields(3))
  from lv have ev: "\<exists>m'. find (\<lambda>x. msg_id x = msg_id (outbox pending_world ! i)) (outbox (processOutbox ?v)) = Some m'
              \<and> (case bus_outcome ?v (length (bus_attempts ?v) + i) of
                    Some e \<Rightarrow> \<not> processed m' \<and> retryCount m' = retryCount (outbox pending_world ! i) + 1
                               \<and> error m' = Some (err_message e)
                  | None \<Rightarrow>
                      (case mark_processed_fault ?v (msg_id (outbox pending_world ! i)) of
                         None \<Rightarrow> processed m'
                       | Some e \<Rightarrow> \<not> processed m' \<and> retryCount m' = retryCount (outbox pending_world ! i) + 1
                                    \<and> error m' = Some (err_message e)))" if "i < 2" for i
    using that by (simp add: pending_fields(3))
  from ew [of 0] have 1: "\<exists>m'. find (\<lambda>x. msg_id x = ''m1'') (outbox (processOutbox ?w)) = Some m'
         \<and> \<not> processed m' \<and> retryCount m' = 1 \<and> error m' = Some ''bus down''"
    by (simp add: w pending_fields)
  from ew [of "Suc 0"] have 2: "\<exists>m'. find (\<lambda>x. msg_id x = ''m2'') (outbox (processOutbox ?w)) = Some m'
         \<and> processed m'"
    by (simp add: w pending_fields)
  from ev [of "Suc 0"] have 3: "\<exists>m'. find (\<lambda>x. msg_id x = ''m2'') (outbox (processOutbox ?v)) = Some m'
         \<and> \<not> processed m' \<and> retryCount m' = 1 \<and> error m' = Some ''write failed''"
    by (simp add: v pending_fields)
  from 1 2 3 a show ?thesis by blast
qed

text \<open>
  Claim C3, as stated, at four drains of two pending messages; each line lists the
  id, the processed flag, the retry count and the error of the stored messages after the
  drain. When the bus throws an error with an empty message, the error recorded is the
  empty string. When the bus accepts both messages (both were attempted) but the
  mark-as-processed write throws, both stay unprocessed, with a retry counted and the
  error of the store recorded. When the bus rejects the first message and the
  mark-as-failed write throws, the loop is left: the first message keeps its retry count
  and has no error, and the second message is never attempted. When the two messages
  carry the same id and the bus rejects the first and accepts the second, the first
  message ends processed.
\<close>

theorem outbox_failure_counterexamples:
  "map (\<lambda>m. (msg_id m, processed m, retryCount m, error m))
       (outbox (processOutbox silent_bus_failure_world))
     = [(''m1'', False, 1, Some []), (''m2'', False, 1, Some [])]
   \<and> bus_outcome outbox_write_down_world 0 = None
   \<and> bus_outcome outbox_write_down_world 1 = None
   \<and> length (bus_attempts (processOutbox outbox_write_down_world)) = 2
   \<and> map (\<lambda>m. (msg_id m, processed m, retryCount m, error m))
         (outbox (processOutbox outbox_write_down_world))
     = [(''m1'', False, 1, Some ''write failed''), (''m2'', False, 1, Some ''write failed'')]
   \<and> bus_outcome failed_write_world 0 = Some (JsError None ''bus down'')
   \<and> length (bus_attempts (processOutbox failed_write_world)) = 1
   \<and> map (\<lambda>m. (msg_id m, processed m, retryCount m, error m))
         (outbox (processOutbox failed_write_world))
     = [(''m1'', False, 0, None), (''m2'', False, 0, None)]
   \<and> bus_outcome twin_id_world 0 = Some (JsError None ''bus down'')
   \<and> map (\<lambda>m. (msg_id m, subject m, processed m, retryCount m, error m))
         (outbox (processOutbox twin_id_world))
     = [(''m1'', ''D1'', True, 1, Some ''bus down''), (''m1'', ''D2'', True, 1, Some ''bus down'')]"
  by (simp add: dispatcher_defs silent_bus_failure_world_def outbox_write_down_world_def
        failed_write_world_def twin_id_world_def pending_world_def quiet_world_def Let_def)

section \<open>Where the identity of ids and the idempotence guard hold\<close>

text \<open>
  \<open>updateDeviceAvailability\<close> keeps \<open>id\<close> and \<open>deviceId\<close> as they are, and a created
  record has its id equal to its device id exactly when the given device id has no
  surrounding white space.
\<close>

theorem identity_where_trimmed:
  "(\<forall>a. updateDeviceAvailability now ex st p = Inr a \<longrightarrow>
        id' a = id' ex \<and> deviceId a = deviceId ex)
   \<and> (\<forall>a. createDeviceAvailability now d st r = Inr a \<longrightarrow>
        id' a = d \<and> deviceId a = trim d \<and> (id' a = deviceId a \<longleftrightarrow> trim d = d))"
  by (auto simp: update_Inr create_Inr)

lemma identity_where_trimmed_at_D1:
  "(\<exists>a. createDeviceAvailability 5 ''D1'' None None = Inr a \<and> id' a = deviceId a)
   \<and> (\<exists>a. updateDeviceAvailability 7
           \<lparr> id' = ''D1'', deviceId = ''D1'', status = Unavailable, reservationId = Some ''R1'',
             lastCheckedAt = 5, updatedAt = 5 \<rparr> (Some Available) Null = Inr a
         \<and> id' a = ''D1'' \<and> deviceId a = ''D1'')"
proof -
  let ?ex = "\<lparr> id' = ''D1'', deviceId = ''D1'', status = Unavailable, reservationId = Some ''R1'',
             lastCheckedAt = 5, updatedAt = 5 \<rparr>"
  have c: "\<exists>a. createDeviceAvailability 5 ''D1'' None None = Inr a"
    by (simp add: create_Inr validate_ok trim_D1)
  have u: "\<exists>a. updateDeviceAvailability 7 ?ex (Some Available) Null = Inr a"
    by (simp add: update_Inr validate_ok trim_D1)
  note i = identity_where_trimmed
    [where now = 5 and d = "''D1''" and st = None and r = None and ex = ?ex and p = Null]
  note j = identity_where_trimmed
    [where now = 7 and d = "''D1''" and st = "Some Available" and r = None and ex = ?ex and p = Null]
  from c i have 1: "\<exists>a. createDeviceAvailability 5 ''D1'' None None = Inr a \<and> id' a = deviceId a"
    by (auto simp: trim_D1)
  from u j have 2: "\<exists>a. updateDeviceAvailability 7 ?ex (Some Available) Null = Inr a
         \<and> id' a = ''D1'' \<and> deviceId a = ''D1''"
    by auto
  from 1 2 show ?thesis by blast
qed


lemma read_valid:
  assumes "read_fault w = None" "\<forall>x \<in> set (docs w). mapToDomain x = Inr x"
  shows "fst (repo_getByDeviceId w d) = Inr (find (is_item w d d) (docs w))"
proof -
  have it: "is_item (w \<lparr> calls := cs \<rparr>) = is_item w" for cs
    by (rule is_item_frame) simp
  show ?thesis
  proof (cases "find (is_item w d d) (docs w)")
    case None
    with assms show ?thesis
      by (simp add: repo_getByDeviceId_def item_read_def it Let_def)
  next
    case (Some x)
    then have "x \<in> set (docs w)" by (auto simp: find_Some_iff)
    with assms(2) have "mapToDomain x = Inr x" by blast
    with Some assms(1) show ?thesis
      by (simp add: repo_getByDeviceId_def item_read_def it Let_def)
  qed
qed

lemma mapToDomain_Inr: "mapToDomain a = Inr b \<Longrightarrow> b = a"
  by (simp add: mapToDomain_def split: if_splits)

lemma repo_save_docs:
  assumes "repo_save w a = (Inr saved, w')"
  shows "docs w' = (if find (is_item w (id' a) (partition_key w a)) (docs w) = None
                    then docs w @ [a]
                    else map (\<lambda>x. if is_item w (id' a) (partition_key w a) x then a else x) (docs w))
       \<and> partition_path w' = partition_path w \<and> read_fault w' = read_fault w
       \<and> mapToDomain a = Inr a"
proof -
  have it: "is_item (w \<lparr> calls := cs \<rparr>) = is_item w" for cs
    by (rule is_item_frame) simp
  have pk: "partition_key (w \<lparr> calls := cs \<rparr>) = partition_key w" for cs
    by (intro ext) (simp add: partition_key_def)
  from assms show ?thesis
    by (auto simp: repo_save_def items_upsert_def it pk dest: mapToDomain_Inr
           split: option.splits sum.splits prod.splits if_splits)
qed

lemma publish_frame:
  assumes "publish_if_changed w prev saved = (Inr a, w')"
  shows "docs w' = docs w \<and> partition_path w' = partition_path w \<and> read_fault w' = read_fault w"
  using assms
  by (auto simp: publish_if_changed_def outbox_publish_def outboxRepo_save_def Let_def
           split: option.splits sum.splits prod.splits if_splits)

lemma find_upsert_replace:
  assumes "find P xs = Some x" "P a"
  shows "find P (map (\<lambda>x. if P x then a else x) xs) = Some a"
  using assms by (induction xs) (auto split: if_splits)

lemma find_append_new:
  assumes "find P xs = None" "P a"
  shows "find P (xs @ [a]) = Some a"
  using assms by (induction xs) (auto split: if_splits)

lemma short_circuit:
  assumes "read_fault w = None" "\<forall>x \<in> set (docs w). mapToDomain x = Inr x"
      and "find (is_item w d d) (docs w) = Some a" "status a = S" "strict_eq (reservationId a) R"
  shows "updateAvailabilityStatus w d S R =
           (\<lparr> success = True, res_data = Some a, res_error = None, code = None \<rparr>,
            w \<lparr> calls := calls w @ [GetByDeviceId d] \<rparr>)"
proof -
  from read_valid [OF assms(1,2), of d] assms(3)
  have "repo_getByDeviceId w d = (Inr (Some a), w \<lparr> calls := calls w @ [GetByDeviceId d] \<rparr>)"
    using getByDeviceId_world [of w d] by (cases "repo_getByDeviceId w d") simp
  with assms(4,5) show ?thesis
    by (simp add: updateAvailabilityStatus_def updateAvailabilityStatus_try_def)
qed


text \<open>
  With a reservation id given as a string: when the store reads without faults and holds
  only documents that \<open>mapToDomain\<close> accepts, and the device id and the reservation id
  carry no surrounding white space, a successful call repeated at any later time returns
  the same result and only reads: no save, no publish.
\<close>

theorem repeated_call_short_circuits:
  assumes reads: "read_fault w = None"
      and valid: "\<forall>x \<in> set (docs w). mapToDomain x = Inr x"
      and trimmed: "trim d = d" "trim r = r"
      and first: "updateAvailabilityStatus w d S (Str r) = (res, w1)" "success res"
  shows "updateAvailabilityStatus (w1 \<lparr> clock := t \<rparr>) d S (Str r)
           = (res, w1 \<lparr> clock := t, calls := calls w1 @ [GetByDeviceId d] \<rparr>)"
proof -
  from first obtain a where tr: "updateAvailabilityStatus_try w d S (Str r) = (Inr a, w1)"
    and res: "res = \<lparr> success = True, res_data = Some a, res_error = None, code = None \<rparr>"
    by (auto simp: updateAvailabilityStatus_def split: prod.splits sum.splits)
  let ?w0 = "snd (repo_getByDeviceId w d)"
  have w0: "docs ?w0 = docs w" "partition_path ?w0 = partition_path w" "read_fault ?w0 = read_fault w"
    "clock ?w0 = clock w"
    by (simp_all add: getByDeviceId_world)
  have i0: "is_item ?w0 = is_item w" by (rule is_item_frame) (simp add: w0)
  have pk0: "partition_key ?w0 = partition_key w" by (intro ext) (simp add: partition_key_def w0)
  note rd = read_valid [OF reads valid, of d]
  have goal: "updateAvailabilityStatus (w1 \<lparr> clock := t \<rparr>) d S (Str r)
           = (\<lparr> success = True, res_data = Some a, res_error = None, code = None \<rparr>,
              w1 \<lparr> clock := t, calls := calls w1 @ [GetByDeviceId d] \<rparr>)"
    if st: "docs w1 = ds" "partition_path w1 = partition_path w" "read_fault w1 = None"
      and ok: "\<forall>x \<in> set ds. mapToDomain x = Inr x"
      and f: "find (is_item w d d) ds = Some a" "status a = S" "reservationId a = Some r"
    for ds
  proof -
    let ?v = "w1 \<lparr> clock := t \<rparr>"
    have iv: "is_item ?v = is_item w" by (rule is_item_frame) (simp add: st)
    from short_circuit [of ?v d a S "Str r"] st ok f show ?thesis
      by (simp add: iv)
  qed
  from tr show ?thesis
  proof (cases rule: try_cases)
    case (short ex)
    from short(1) rd have f: "find (is_item w d d) (docs w) = Some ex" by simp
    from short(3) obtain r' where r': "reservationId ex = Some r'" "r' = r"
      by (cases "reservationId ex") auto
    from goal [of "docs w"] short(2,4,5) f r' w0 reads valid res show ?thesis
      by simp
  next
    case (updated ex upd saved w2)
    from updated(1) rd have f: "find (is_item w d d) (docs w) = Some ex" by simp
    then have ex: "ex \<in> set (docs w)" "is_item w d d ex" by (auto simp: find_Some_iff)
    from updated(3) have upd: "upd = ex \<lparr> status := S, reservationId := Some r,
        lastCheckedAt := clock w, updatedAt := clock w \<rparr>"
      by (simp add: update_Inr)
    have iu: "is_item w d d upd" using ex(2)
      by (cases "partition_path w") (simp_all add: upd is_item_def partition_key_def)
    then have ku: "id' upd = d" "partition_key w upd = d" by (simp_all add: is_item_def)
    from repo_save_Inr [OF updated(4)] have sv: "saved = upd" by simp
    from repo_save_docs [OF updated(4)] f ku
    have d2: "docs w2 = map (\<lambda>x. if is_item w d d x then upd else x) (docs w)"
      and p2: "partition_path w2 = partition_path w" "read_fault w2 = read_fault w"
      and mu: "mapToDomain upd = Inr upd"
      by (simp_all add: i0 pk0 w0)
    from publish_frame [OF updated(5)] d2 p2
    have d1: "docs w1 = map (\<lambda>x. if is_item w d d x then upd else x) (docs w)"
      and p1: "partition_path w1 = partition_path w" "read_fault w1 = None"
      by (simp_all add: reads)
    from publish_if_changed_Inr [OF updated(5)] sv have a: "a = upd" by simp
    have ok: "\<forall>x \<in> set (map (\<lambda>x. if is_item w d d x then upd else x) (docs w)). mapToDomain x = Inr x"
      using valid mu by auto
    from goal [OF d1 p1 ok] find_upsert_replace [OF f iu] a upd res show ?thesis
      by simp
  next
    case (created new saved w2)
    from created(1) rd have f: "find (is_item w d d) (docs w) = None" by simp
    from created(2) trimmed have new: "new = \<lparr> id' = d, deviceId = d, status = S,
        reservationId = Some r, lastCheckedAt = clock w, updatedAt = clock w \<rparr>"
      by (simp add: create_Inr)
    have kn: "id' new = d" "partition_key w new = d"
      by (cases "partition_path w"; simp add: new partition_key_def)+
    then have inew: "is_item w d d new" by (simp add: is_item_def)
    from repo_save_Inr [OF created(3)] have sv: "saved = new" by simp
    from repo_save_docs [OF created(3)] f kn
    have d2: "docs w2 = docs w @ [new]"
      and p2: "partition_path w2 = partition_path w" "read_fault w2 = read_fault w"
      and mn: "mapToDomain new = Inr new"
      by (simp_all add: i0 pk0 w0)
    from publish_frame [OF created(4)] d2 p2
    have d1: "docs w1 = docs w @ [new]"
      and p1: "partition_path w1 = partition_path w" "read_fault w1 = None"
      by (simp_all add: reads)
    from publish_if_changed_Inr [OF created(4)] sv have a: "a = new" by simp
    have ok: "\<forall>x \<in> set (docs w @ [new]). mapToDomain x = Inr x"
      using valid mn by auto
    from goal [OF d1 p1 ok] find_append_new [OF f inew] a new res show ?thesis
      by simp
  qed
qed


text \<open>The first reservation of D1 under R1, made twice.\<close>

lemma repeated_call_short_circuits_at_D1:
  "calls (snd (updateAvailabilityStatus
                 (snd (updateAvailabilityStatus quiet_world ''D1'' Unavailable (Str ''R1''))
                    \<lparr> clock := 2000 \<rparr>)
                 ''D1'' Unavailable (Str ''R1'')))
   = [GetByDeviceId ''D1'',
      Save \<lparr> id' = ''D1'', deviceId = ''D1'', status = Unavailable, reservationId = Some ''R1'',
             lastCheckedAt = 1000, updatedAt = 1000 \<rparr>,
      Publish ''Availability'' AvailabilityChanged ''D1''
        \<lparr> evt_deviceId = ''D1'', previousStatus = None, newStatus = Unavailable,
          evt_reservationId = Some ''R1'', evt_updatedAt = 1000 \<rparr>,
      GetByDeviceId ''D1'']"
proof -
  let ?a = "updateAvailabilityStatus quiet_world ''D1'' Unavailable (Str ''R1'')"
  have sa: "success (fst ?a)"
    by (simp add: quiet_world_def usecase_defs store_defs trim_D1 trim_R1 Let_def)
  have ca: "calls (snd ?a) = [GetByDeviceId ''D1'',
      Save \<lparr> id' = ''D1'', deviceId = ''D1'', status = Unavailable, reservationId = Some ''R1'',
             lastCheckedAt = 1000, updatedAt = 1000 \<rparr>,
      Publish ''Availability'' AvailabilityChanged ''D1''
        \<lparr> evt_deviceId = ''D1'', previousStatus = None, newStatus = Unavailable,
          evt_reservationId = Some ''R1'', evt_updatedAt = 1000 \<rparr>]"
    by (simp add: quiet_world_def usecase_defs store_defs trim_D1 trim_R1 Let_def)
  have pa: "?a = (fst ?a, snd ?a)" by simp
  have v: "\<forall>x \<in> set (docs quiet_world). mapToDomain x = Inr x" by (simp add: quiet_fields)
  from repeated_call_short_circuits [OF quiet_fields(7) v trim_D1 trim_R1 pa sa, of 2000] ca
  show ?thesis by simp
qed

section \<open>Where stored ids equal device ids\<close>

lemma take1_filter: "take (Suc 0) (filter P xs) = (case find P xs of None \<Rightarrow> [] | Some x \<Rightarrow> [x])"
  by (induction xs) simp_all

lemma read_where_ids_agree:
  assumes reads: "read_fault w = None"
      and agree: "\<forall>x \<in> set (docs w). id' x = deviceId x"
      and got: "fst (repo_getByDeviceId w d) = Inr prior"
  shows "prior = find (\<lambda>x. deviceId x = d) (docs w)"
proof -
  have f: "find (is_item w' d d) (docs w) = find (\<lambda>x. deviceId x = d) (docs w)" for w'
    using agree by (intro find_cong) (auto simp: is_item_def partition_key_def split: partition_path.splits)
  from got reads show ?thesis
    by (auto simp: repo_getByDeviceId_def item_read_def getByDeviceId_catch_def items_query_def
          isNotFound_def Let_def f take1_filter mapToDomain_def
          split: option.splits sum.splits list.splits if_splits)
qed

text \<open>
  In a store that reads without faults and in which every record has its id equal to
  its device id, the event decision holds relative to the record of the device: a
  successful call of \<open>updateAvailabilityStatus\<close> enqueues exactly one message when the
  requested status differs from the status of the stored record whose device id is the
  one given (none when there is no such record), and nothing otherwise; a change of the
  reservation id alone enqueues nothing.
\<close>

theorem event_on_change_where_ids_agree:
  assumes run: "updateAvailabilityStatus w d S R = (res, w')" and ok: "success res"
      and reads: "read_fault w = None"
      and agree: "\<forall>x \<in> set (docs w). id' x = deviceId x"
  shows "\<exists>saved.
           res_data res = Some saved \<and> status saved = S
         \<and> (if map_option status (find (\<lambda>x. deviceId x = d) (docs w)) = Some S
            then outbox w' = outbox w
            else outbox w' = outbox w @
                   [\<lparr> msg_id = uuids w (uuid_draws w), topic = ''Availability'',
                      eventType = AvailabilityChanged, subject = deviceId saved,
                      data = \<lparr> evt_deviceId = deviceId saved,
                               previousStatus = map_option status (find (\<lambda>x. deviceId x = d) (docs w)),
                               newStatus = S,
                               evt_reservationId = reservationId saved,
                               evt_updatedAt = updatedAt saved \<rparr>,
                      dataVersion = ''1.0'', eventTime = clock w, processed = False,
                      processedAt = None, error = None, retryCount = 0 \<rparr>])"
proof -
  from event_on_change_by_read [OF run ok] obtain prior saved where
    p: "fst (repo_getByDeviceId w d) = Inr prior" and
    s: "res_data res = Some saved" "status saved = S" and
    e: "if map_option status prior = Some (status saved)
            then outbox w' = outbox w
            else outbox w' = outbox w @
                   [\<lparr> msg_id = uuids w (uuid_draws w), topic = ''Availability'',
                      eventType = AvailabilityChanged, subject = deviceId saved,
                      data = \<lparr> evt_deviceId = deviceId saved,
                               previousStatus = map_option status prior,
                               newStatus = status saved,
                               evt_reservationId = reservationId saved,
                               evt_updatedAt = updatedAt saved \<rparr>,
                      dataVersion = ''1.0'', eventTime = clock w, processed = False,
                      processedAt = None, error = None, retryCount = 0 \<rparr>]"
    by blast
  from read_where_ids_agree [OF reads agree p] s e show ?thesis by auto
qed

text \<open>
  In a store in which every record has its id equal to its device id and whose delete
  throws nothing but the not-found error of a missing item, \<open>deleteAvailability\<close>
  succeeds, succeeds again when repeated, and leaves the store without a record of the
  device, the other records untouched.
\<close>

theorem deletion_where_ids_agree:
  assumes del: "delete_fault w = None"
      and agree: "\<forall>x \<in> set (docs w). id' x = deviceId x"
  shows "\<exists>w1 w2.
           deleteAvailability w d = (\<lparr> del_success = True, del_error = None \<rparr>, w1)
         \<and> deleteAvailability w1 d = (\<lparr> del_success = True, del_error = None \<rparr>, w2)
         \<and> docs w1 = filter (\<lambda>x. deviceId x \<noteq> d) (docs w)
         \<and> docs w2 = docs w1"
proof -
  have f: "filter (\<lambda>x. \<not> is_item w d d x) (docs w) = filter (\<lambda>x. deviceId x \<noteq> d) (docs w)"
    using agree by (intro filter_cong) (auto simp: is_item_def partition_key_def split: partition_path.splits)
  from repo_delete_ok [OF del, of d] obtain w1 where
    1: "repo_delete w d = (Inr (), w1)" "docs w1 = filter (\<lambda>x. \<not> is_item w d d x) (docs w)"
       "partition_path w1 = partition_path w" "delete_fault w1 = None"
    by blast
  from repo_delete_ok [OF 1(4), of d] obtain w2 where
    2: "repo_delete w1 d = (Inr (), w2)" "docs w2 = filter (\<lambda>x. \<not> is_item w1 d d x) (docs w1)"
    by blast
  have i1: "is_item w1 = is_item w" using 1(3) by (rule is_item_frame)
  have "docs w2 = docs w1"
    by (simp add: 2(2) i1 1(2))
  with 1(1,2) 2(1) f show ?thesis
    by (simp add: deleteAvailability_def)
qed

section \<open>Records built by the transition engine pass validation\<close>

lemma dropWhile_rev_keeps_head:
  assumes "\<not> P x"
  shows "\<exists>zs. dropWhile P (rev (x # t)) = zs @ [x] \<and> (zs = [] \<or> \<not> P (hd zs))"
proof (cases "\<forall>y \<in> set (rev t). P y")
  case True
  then have "dropWhile P (rev t @ [x]) = dropWhile P [x]"
    by (intro dropWhile_append2) blast
  with assms have "dropWhile P (rev (x # t)) = [] @ [x]" by simp
  then show ?thesis by blast
next
  case False
  then have ne: "dropWhile P (rev t) \<noteq> []" by (auto simp: dropWhile_eq_Nil_conv)
  then have "\<not> P (hd (dropWhile P (rev t)))" by (rule hd_dropWhile)
  moreover from False have "dropWhile P (rev t @ [x]) = dropWhile P (rev t) @ [x]"
    by auto
  ultimately show ?thesis using ne by auto
qed

lemma trim_idem: "trim (trim s) = trim s"
proof (cases "dropWhile is_ws s")
  case Nil
  show ?thesis unfolding trim_def Nil by simp
next
  case (Cons x t)
  then have nx: "\<not> is_ws x" using hd_dropWhile [of is_ws s] by auto
  from dropWhile_rev_keeps_head [of is_ws x t, OF nx] obtain zs where
    zs: "dropWhile is_ws (rev (x # t)) = zs @ [x]" "zs = [] \<or> \<not> is_ws (hd zs)" by blast
  have tr: "trim s = x # rev zs" unfolding trim_def Cons zs by simp
  have "dropWhile is_ws (rev (x # rev zs)) = zs @ [x]"
    using zs(2) by (cases zs) (simp_all add: nx)
  then show ?thesis unfolding tr by (simp add: trim_def nx)
qed

text \<open>
  Every record built by \<open>createDeviceAvailability\<close> or \<open>updateDeviceAvailability\<close>
  passes validation again (its device id is not blank and its status is enumerated),
  and a created record is accepted by \<open>mapToDomain\<close>.
\<close>

theorem built_records_pass_validation:
  "(\<forall>a. createDeviceAvailability now d st r = Inr a \<longrightarrow>
        trim (deviceId a) \<noteq> [] \<and> status a \<in> {Available, Unavailable, Maintenance, Retired, Lost}
        \<and> mapToDomain a = Inr a)
   \<and> (\<forall>a. updateDeviceAvailability now ex st p = Inr a \<longrightarrow>
        trim (deviceId a) \<noteq> [] \<and> status a \<in> {Available, Unavailable, Maintenance, Retired, Lost})"
proof -
  have c: "trim (deviceId a) \<noteq> [] \<and> status a \<in> {Available, Unavailable, Maintenance, Retired, Lost}
        \<and> mapToDomain a = Inr a" if "createDeviceAvailability now d st r = Inr a" for a
  proof -
    from that have v: "trim d \<noteq> []" "status a \<in> {Available, Unavailable, Maintenance, Retired, Lost}"
      and a: "deviceId a = trim d" "id' a = d"
      by (auto simp: create_Inr validate_ok)
    from v(1) have d: "d \<noteq> []" by (auto simp: trim_def)
    from v a d show ?thesis by (auto simp: trim_idem mapToDomain_def)
  qed
  have u: "trim (deviceId a) \<noteq> [] \<and> status a \<in> {Available, Unavailable, Maintenance, Retired, Lost}"
    if "updateDeviceAvailability now ex st p = Inr a" for a
    using that by (auto simp: update_Inr validate_ok)
  from c u show ?thesis by blast
qed

end
